theory Spec2Isabelle
  imports Complex_Main "HOL-Library.AList"
begin

section \<open>JavaScript values used by the component\<close>

text \<open>
  The development embeds \<^verbatim>\<open>src/components/sketch-learner.tsx\<close>: the React component
  \<^verbatim>\<open>SketchLearner\<close> with its handlers \<^verbatim>\<open>canvasToTensor\<close>, \<^verbatim>\<open>addExample\<close>,
  \<^verbatim>\<open>buildModel\<close>, \<^verbatim>\<open>train\<close>, \<^verbatim>\<open>predict\<close>, \<^verbatim>\<open>saveModel\<close>, \<^verbatim>\<open>loadModel\<close>,
  \<^verbatim>\<open>addLabel\<close> and \<^verbatim>\<open>removeLabel\<close>. Each handler is a function from the component
  state before the call to the state after it. A handler runs to completion before the
  next one starts; the interleaving of an awaiting \<^verbatim>\<open>train\<close> with other handlers is
  not part of the model.
\<close>

type_synonym label = string

text \<open>A thrown \<^verbatim>\<open>Error\<close> object; the handlers only read its \<^verbatim>\<open>message\<close>.\<close>

datatype error = Error (message: string)

text \<open>\<^verbatim>\<open>Array.prototype.indexOf\<close> (strict equality); \<^verbatim>\<open>-1\<close> is \<open>None\<close>.\<close>

fun indexOf :: "'a list \<Rightarrow> 'a \<Rightarrow> nat option" where
  "indexOf [] v = None"
| "indexOf (x # rest) v = (if x = v then Some 0 else map_option Suc (indexOf rest v))"

text \<open>
  \<^verbatim>\<open>arr[i]\<close> for the result \<open>i\<close> of an \<^verbatim>\<open>indexOf\<close>: an index outside the array
  (also \<^verbatim>\<open>-1\<close>) reads \<^verbatim>\<open>undefined\<close>, which is \<open>None\<close>.
\<close>

definition elemAt :: "'a list \<Rightarrow> nat option \<Rightarrow> 'a option" where
  "elemAt arr i = (case i of None \<Rightarrow> None
                   | Some n \<Rightarrow> if n < length arr then Some (arr ! n) else None)"

text \<open>
  \<^verbatim>\<open>Math.max(...arr)\<close> on finite numbers; \<^verbatim>\<open>-Infinity\<close> (the empty argument list) is
  \<open>None\<close>. Only comparisons of the numbers are made, so a finite float is
  represented by the real number it denotes.
\<close>

fun mathMax :: "real list \<Rightarrow> real option" where
  "mathMax [] = None"
| "mathMax (x # rest) = (case mathMax rest of None \<Rightarrow> Some x | Some m \<Rightarrow> Some (max x m))"

text \<open>\<^verbatim>\<open>arr.indexOf(Math.max(...arr))\<close>: no finite element equals \<^verbatim>\<open>-Infinity\<close>.\<close>

definition indexOfMax :: "real list \<Rightarrow> nat option" where
  "indexOfMax arr = (case mathMax arr of None \<Rightarrow> None | Some m \<Rightarrow> indexOf arr m)"

text \<open>Decimal rendering of a non-negative integer inside a template string.\<close>

definition digitChar :: "nat \<Rightarrow> char" where
  "digitChar d =
     (if d = 0 then CHR ''0'' else if d = 1 then CHR ''1'' else if d = 2 then CHR ''2''
      else if d = 3 then CHR ''3'' else if d = 4 then CHR ''4'' else if d = 5 then CHR ''5''
      else if d = 6 then CHR ''6'' else if d = 7 then CHR ''7'' else if d = 8 then CHR ''8''
      else CHR ''9'')"

function showNat :: "nat \<Rightarrow> string" where
  "showNat n = (if n < 10 then [digitChar n] else showNat (n div 10) @ [digitChar (n mod 10)])"
  by pat_completeness auto
termination
  by (relation "measure id") auto

declare showNat.simps [simp del]

text \<open>A template-string hole filled with a value that may be \<^verbatim>\<open>undefined\<close>.\<close>

definition showLabel :: "label option \<Rightarrow> string" where
  "showLabel l = (case l of None \<Rightarrow> ''undefined'' | Some t \<Rightarrow> t)"

subsection \<open>The \<^verbatim>\<open>examples\<close> object: \<^verbatim>\<open>{label: count}\<close>\<close>

text \<open>
  \<^verbatim>\<open>useState({})\<close> makes \<^verbatim>\<open>examples\<close> an ordinary object: its own properties are an
  association list, and a read of a key that is not an own property continues in
  \<^verbatim>\<open>Object.prototype\<close>. A value is a number, a string, or an inherited member, kept
  as the text its conversion to a string gives.
\<close>

datatype jsval = JNum nat | JStr string | JObj string

definition nativeFunction :: "string \<Rightarrow> jsval" where
  "nativeFunction name = JObj (''function '' @ name @ ''() { [native code] }'')"

definition objectPrototype :: "(string \<times> jsval) list" where
  "objectPrototype =
     [(''constructor'', nativeFunction ''Object''),
      (''__defineGetter__'', nativeFunction ''__defineGetter__''),
      (''__defineSetter__'', nativeFunction ''__defineSetter__''),
      (''hasOwnProperty'', nativeFunction ''hasOwnProperty''),
      (''__lookupGetter__'', nativeFunction ''__lookupGetter__''),
      (''__lookupSetter__'', nativeFunction ''__lookupSetter__''),
      (''isPrototypeOf'', nativeFunction ''isPrototypeOf''),
      (''propertyIsEnumerable'', nativeFunction ''propertyIsEnumerable''),
      (''toString'', nativeFunction ''toString''),
      (''valueOf'', nativeFunction ''valueOf''),
      (''__proto__'', JObj ''[object Object]''),
      (''toLocaleString'', nativeFunction ''toLocaleString'')]"

text \<open>\<^verbatim>\<open>obj[k]\<close>: the own property, else the inherited one, else \<^verbatim>\<open>undefined\<close>.\<close>

definition getProp :: "(string \<times> jsval) list \<Rightarrow> string \<Rightarrow> jsval option" where
  "getProp obj k = (case map_of obj k of Some v \<Rightarrow> Some v | None \<Rightarrow> map_of objectPrototype k)"

text \<open>\<^verbatim>\<open>v || 0\<close>: \<^verbatim>\<open>undefined\<close>, \<^verbatim>\<open>0\<close> and the empty string are falsy.\<close>

definition orZero :: "jsval option \<Rightarrow> jsval" where
  "orZero v = (case v of None \<Rightarrow> JNum 0
               | Some (JNum n) \<Rightarrow> JNum n
               | Some (JStr t) \<Rightarrow> if t = [] then JNum 0 else JStr t
               | Some (JObj t) \<Rightarrow> JObj t)"

text \<open>\<^verbatim>\<open>v + 1\<close>: addition on a number, concatenation with \<^verbatim>\<open>"1"\<close> on anything else.\<close>

fun plusOne :: "jsval \<Rightarrow> jsval" where
  "plusOne (JNum n) = JNum (n + 1)"
| "plusOne (JStr t) = JStr (t @ ''1'')"
| "plusOne (JObj t) = JStr (t @ ''1'')"

text \<open>The count the component shows for a label: \<^verbatim>\<open>examples[label] || 0\<close>.\<close>

definition labelCount :: "(string \<times> jsval) list \<Rightarrow> label \<Rightarrow> jsval" where
  "labelCount obj l = orZero (getProp obj l)"

section \<open>TensorFlow.js values\<close>

text \<open>A tensor is its shape and its values in row-major order.\<close>

datatype tensor = Tensor (shape: "nat list") (vals: "real list")

text \<open>\<^verbatim>\<open>t.expandDims(0)\<close>.\<close>

definition expandDims0 :: "tensor \<Rightarrow> tensor" where
  "expandDims0 t = Tensor (1 # shape t) (vals t)"

text \<open>
  \<^verbatim>\<open>tf.oneHot(idx, depth)\<close>: a vector of length \<open>depth\<close> with 1 at \<open>idx\<close> and 0
  elsewhere. TensorFlow.js rejects a depth below 2.
\<close>

definition oneHot :: "nat \<Rightarrow> nat \<Rightarrow> error + tensor" where
  "oneHot idx depth =
     (if depth < 2
      then Inl (Error (''Error in oneHot: depth must be >=2, but it is '' @ showNat depth))
      else Inr (Tensor [depth] (map (\<lambda>j. if j = idx then 1 else 0) [0..<depth])))"

subsection \<open>The preprocessing kernels\<close>

text \<open>
  The bitmap of the canvas element as \<^verbatim>\<open>getImageData\<close> gives it: four bytes (red,
  green, blue, alpha) per pixel, rows from top to bottom.
\<close>

record raster =
  width :: nat
  height :: nat
  rgba :: "nat list"

text \<open>
  \<^verbatim>\<open>tf.browser.fromPixels(canvas, numChannels)\<close>: the first \<open>numChannels\<close> bytes of
  every pixel, as a tensor of shape \<^verbatim>\<open>[height, width, numChannels]\<close>. A bitmap without
  pixels cannot be read.
\<close>

definition fromPixels :: "raster \<Rightarrow> nat \<Rightarrow> error + tensor" where
  "fromPixels c numChannels =
     (if width c = 0 \<or> height c = 0
      then Inl (Error ''The source width or height is 0.'')
      else Inr (Tensor [height c, width c, numChannels]
                 (concat (map (\<lambda>i. map (\<lambda>ch. real (rgba c ! (i * 4 + ch))) [0..<numChannels])
                              [0..<height c * width c]))))"

text \<open>
  \<^verbatim>\<open>t.toFloat()\<close> changes the element type only, and \<^verbatim>\<open>t.div(d)\<close> divides every
  value. The values of a tensor are the real numbers that the kernels' float32 results
  approximate: rounding is not part of the model.
\<close>

definition toFloat :: "tensor \<Rightarrow> tensor" where
  "toFloat t = t"

definition divScalar :: "tensor \<Rightarrow> real \<Rightarrow> tensor" where
  "divScalar t d = Tensor (shape t) (map (\<lambda>v. v / d) (vals t))"

text \<open>
  \<^verbatim>\<open>tf.image.resizeBilinear(img, [newHeight, newWidth])\<close> with its default options
  (corners not aligned, no half-pixel centres), on an image of rank 3, which is what
  the component passes. Output row \<open>r\<close> reads the source at \<open>oldHeight / newHeight * r\<close>:
  the rows below and above that position are mixed by its fractional part, and columns
  likewise.
\<close>

definition sourceFrac :: "nat \<Rightarrow> nat \<Rightarrow> nat \<Rightarrow> real" where
  "sourceFrac oldSize newSize i = (real oldSize / real newSize) * real i"

definition sourceFloor :: "nat \<Rightarrow> nat \<Rightarrow> nat \<Rightarrow> nat" where
  "sourceFloor oldSize newSize i = nat \<lfloor>sourceFrac oldSize newSize i\<rfloor>"

definition sourceCeil :: "nat \<Rightarrow> nat \<Rightarrow> nat \<Rightarrow> nat" where
  "sourceCeil oldSize newSize i = min (oldSize - 1) (nat \<lceil>sourceFrac oldSize newSize i\<rceil>)"

definition bilinear ::
  "real list \<Rightarrow> nat \<Rightarrow> nat \<Rightarrow> nat \<Rightarrow> nat \<Rightarrow> nat \<Rightarrow> nat \<Rightarrow> nat \<Rightarrow> nat \<Rightarrow> real" where
  "bilinear v oldHeight oldWidth ch newHeight newWidth r c d =
     (let sourceRowFloor = sourceFloor oldHeight newHeight r;
          rowFrac = sourceFrac oldHeight newHeight r - real sourceRowFloor;
          sourceRowCeil = sourceCeil oldHeight newHeight r;
          sourceColFloor = sourceFloor oldWidth newWidth c;
          colFrac = sourceFrac oldWidth newWidth c - real sourceColFloor;
          sourceColCeil = sourceCeil oldWidth newWidth c;
          topLeft = v ! ((sourceRowFloor * oldWidth + sourceColFloor) * ch + d);
          bottomLeft = v ! ((sourceRowCeil * oldWidth + sourceColFloor) * ch + d);
          topRight = v ! ((sourceRowFloor * oldWidth + sourceColCeil) * ch + d);
          bottomRight = v ! ((sourceRowCeil * oldWidth + sourceColCeil) * ch + d);
          top = topLeft + (topRight - topLeft) * colFrac;
          bottom = bottomLeft + (bottomRight - bottomLeft) * colFrac
      in top + (bottom - top) * rowFrac)"

definition resizeBilinear :: "tensor \<Rightarrow> nat \<Rightarrow> nat \<Rightarrow> error + tensor" where
  "resizeBilinear img newHeight newWidth =
     (case shape img of
        [oldHeight, oldWidth, ch] \<Rightarrow>
          Inr (Tensor [newHeight, newWidth, ch]
            (concat (map (\<lambda>r. concat (map (\<lambda>c.
               map (\<lambda>d. bilinear (vals img) oldHeight oldWidth ch newHeight newWidth r c d) [0..<ch])
               [0..<newWidth])) [0..<newHeight])))
      | _ \<Rightarrow> Inl (Error ''Error in resizeBilinear: x must be rank 3 or 4.''))"

subsection \<open>Layers and models\<close>

datatype activation = Relu | Softmax

datatype layer =
    Conv2d "nat list option" nat nat activation
  | MaxPool2d nat
  | Flatten
  | Dense nat activation
  | Dropout real

datatype optimizer = Adam real

record compileArgs =
  optimizer :: optimizer
  loss :: string
  metrics :: "string list"

text \<open>
  A \<^verbatim>\<open>tf.Sequential\<close> model: the layers added so far, the arguments of
  \<^verbatim>\<open>compile\<close> once it was called, and the current values of the trainable weights.
\<close>

record layersModel =
  layers :: "layer list"
  compiled :: "compileArgs option"
  weights :: "real list"

text \<open>The number of units of the last layer when it is dense: the model's output width.\<close>

fun outputWidth :: "layer list \<Rightarrow> nat option" where
  "outputWidth [] = None"
| "outputWidth [Dense u a] = Some u"
| "outputWidth [l] = None"
| "outputWidth (l # rest) = outputWidth rest"

section \<open>Component state and collaborators\<close>

record prediction =
  label :: "label option"
  probs :: "real list"

text \<open>
  What \<^verbatim>\<open>JSON.parse\<close> gives for the text stored under \<^verbatim>\<open>"sketch-learner-labels"\<close>.
  \<^verbatim>\<open>saveModel\<close> is the only writer of that key and writes \<^verbatim>\<open>JSON.stringify(labels)\<close>
  of an array of strings, which parses back to the same array.
\<close>

datatype json = JNull | JStrings "label list" | JOther

text \<open>What \<^verbatim>\<open>model.save\<close> stores: topology and weight values (no optimizer).\<close>

record artifacts =
  modelTopology :: "layer list"
  weightData :: "real list"

text \<open>
  The state hooks of the component, the dataset ref, and the two persistent slots the
  component uses: IndexedDB's \<^verbatim>\<open>"indexeddb://sketch-learner-model"\<close> and
  localStorage's \<^verbatim>\<open>"sketch-learner-labels"\<close>.
\<close>

record state =
  labels :: "label list"
  currentLabel :: "label option"
  examples :: "(label \<times> jsval) list"
  model :: "layersModel option"
  status :: string
  prediction :: "prediction option"
  datasetRef_xs :: "tensor list"
  datasetRef_ys :: "tensor list"
  indexeddb :: "artifacts option"
  localStorage :: "json option"

text \<open>
  What one handler call gets from outside the component: the bitmap of the canvas
  element (\<open>None\<close> when \<^verbatim>\<open>canvasRef.current\<close> is null), the outcome of each
  TensorFlow.js or storage call whose result the source does not determine, and the
  answer to \<^verbatim>\<open>prompt\<close>.
\<close>

record world =
  canvas :: "raster option"
  tf_initialWeights :: "real list"
  tf_concat :: "tensor list \<Rightarrow> error + tensor"
  tf_fit :: "layersModel \<Rightarrow> tensor \<Rightarrow> tensor \<Rightarrow> real list \<times> error option"
  tf_predict :: "layersModel \<Rightarrow> tensor \<Rightarrow> error + real list"
  idb_save :: "error option"
  idb_load :: "error option"
  ls_setItem :: "error option"
  prompt :: "string option"

definition imageSize :: nat where
  "imageSize = 28"

section \<open>Handlers\<close>

text \<open>
  \<^verbatim>\<open>canvasToTensor\<close>: throws when there is no canvas; otherwise the \<^verbatim>\<open>tf.tidy\<close>
  block: one channel of the pixels, divided by 255, resized to \<open>imageSize\<close> by
  \<open>imageSize\<close>, with a leading axis of size 1.
\<close>

definition canvasToTensor :: "world \<Rightarrow> error + tensor" where
  "canvasToTensor w =
     (case canvas w of
        None \<Rightarrow> Inl (Error ''Canvas not ready'')
      | Some c \<Rightarrow>
         (case fromPixels c 1 of
            Inl e \<Rightarrow> Inl e
          | Inr pixels \<Rightarrow>
             (case resizeBilinear (divScalar (toFloat pixels) 255) imageSize imageSize of
                Inl e \<Rightarrow> Inl e
              | Inr resized \<Rightarrow> Inr (expandDims0 resized))))"

definition clearCanvas :: "state \<Rightarrow> state" where
  "clearCanvas s = s\<lparr>prediction := None\<rparr>"

text \<open>The \<^verbatim>\<open>try\<close> block of \<^verbatim>\<open>addExample\<close>: the thrown error, or the state it leaves.\<close>

definition addExample_try :: "world \<Rightarrow> state \<Rightarrow> error + state" where
  \<open>addExample_try w s =
     (case canvasToTensor w of
        Inl e \<Rightarrow> Inl e
      | Inr x \<Rightarrow>
         (case (case currentLabel s of None \<Rightarrow> None | Some c \<Rightarrow> indexOf (labels s) c) of
            None \<Rightarrow> Inl (Error (''Label "'' @ showLabel (currentLabel s) @ ''" not found''))
          | Some labelIdx \<Rightarrow>
             (case oneHot labelIdx (length (labels s)) of
                Inl e \<Rightarrow> Inl e
              | Inr y \<Rightarrow>
                 Inr (clearCanvas
                   (s\<lparr>datasetRef_xs := datasetRef_xs s @ [x],
                      datasetRef_ys := datasetRef_ys s @ [expandDims0 y],
                      examples :=
                        AList.update (showLabel (currentLabel s))
                          (plusOne (orZero (getProp (examples s) (showLabel (currentLabel s)))))
                          (examples s),
                      status := ''Added example for "'' @ showLabel (currentLabel s) @ ''"''\<rparr>)))))\<close>

definition addExample :: "world \<Rightarrow> state \<Rightarrow> state" where
  "addExample w s =
     (case addExample_try w s of
        Inr s' \<Rightarrow> s'
      | Inl err \<Rightarrow> s\<lparr>status := ''Failed to add example: '' @ message err\<rparr>)"

text \<open>\<^verbatim>\<open>tf.layers.dense\<close> requires a positive number of units.\<close>

definition dense :: "nat \<Rightarrow> activation \<Rightarrow> error + layer" where
  "dense u a =
     (if u = 0 then Inl (Error ''Expected units to be a positive integer, but got 0.'')
      else Inr (Dense u a))"

definition sequential :: "real list \<Rightarrow> layersModel" where
  "sequential init = \<lparr>layers = [], compiled = None, weights = init\<rparr>"

definition add :: "layer \<Rightarrow> layersModel \<Rightarrow> layersModel" where
  "add l m = m\<lparr>layers := layers m @ [l]\<rparr>"

definition compile :: "compileArgs \<Rightarrow> layersModel \<Rightarrow> layersModel" where
  "compile args m = m\<lparr>compiled := Some args\<rparr>"

text \<open>
  \<^verbatim>\<open>buildModel(numClasses)\<close>. The first argument stands for the values the layers'
  random initialisers draw.
\<close>

definition buildModel :: "real list \<Rightarrow> nat \<Rightarrow> error + layersModel" where
  "buildModel init numClasses =
     (let m0 = sequential init;
          m1 = add (Conv2d (Some [imageSize, imageSize, 1]) 16 3 Relu) m0;
          m2 = add (MaxPool2d 2) m1;
          m3 = add (Conv2d None 32 3 Relu) m2;
          m4 = add (MaxPool2d 2) m3;
          m5 = add Flatten m4;
          m6 = add (Dense 64 Relu) m5;
          m7 = add (Dropout 0.25) m6
      in case dense numClasses Softmax of
           Inl e \<Rightarrow> Inl e
         | Inr out \<Rightarrow>
            Inr (compile \<lparr>optimizer = Adam 0.001, loss = ''categoricalCrossentropy'',
                          metrics = [''accuracy'']\<rparr> (add out m7)))"

text \<open>
  The \<^verbatim>\<open>try\<close> block of \<^verbatim>\<open>train\<close>. A throw leaves the state as it is at that point,
  so the error comes with that state. \<^verbatim>\<open>setModel(m)\<close> runs before \<^verbatim>\<open>m.fit\<close>, and
  \<^verbatim>\<open>fit\<close> updates the weights of that same object.
\<close>

definition train_try :: "world \<Rightarrow> state \<Rightarrow> (error \<times> state) + state" where
  "train_try w s =
     (case tf_concat w (datasetRef_xs s) of
        Inl e \<Rightarrow> Inl (e, s)
      | Inr X \<Rightarrow>
         (case tf_concat w (datasetRef_ys s) of
            Inl e \<Rightarrow> Inl (e, s)
          | Inr Y \<Rightarrow>
             (case buildModel (tf_initialWeights w) (length (labels s)) of
                Inl e \<Rightarrow> Inl (e, s)
              | Inr m \<Rightarrow>
                 (case tf_fit w m X Y of
                    (wts, Some e) \<Rightarrow>
                      Inl (e, s\<lparr>model := Some (m\<lparr>weights := wts\<rparr>),
                                status := ''Training model...''\<rparr>)
                  | (wts, None) \<Rightarrow>
                      Inr (s\<lparr>model := Some (m\<lparr>weights := wts\<rparr>),
                             status := ''Training complete!''\<rparr>)))))"

definition train :: "world \<Rightarrow> state \<Rightarrow> state" where
  "train w s =
     (if length (datasetRef_xs s) < length (labels s)
      then s\<lparr>status := ''Need at least 1 example per class ('' @ showNat (length (labels s))
                          @ '' total)''\<rparr>
      else (case train_try w (s\<lparr>status := ''Preparing tensors...''\<rparr>) of
              Inr s' \<Rightarrow> s'
            | Inl (err, s') \<Rightarrow> s'\<lparr>status := ''Training failed: '' @ message err\<rparr>))"

text \<open>The \<^verbatim>\<open>try\<close> block of \<^verbatim>\<open>predict\<close>, entered when a model is live.\<close>

definition predict_try :: "world \<Rightarrow> layersModel \<Rightarrow> state \<Rightarrow> error + state" where
  "predict_try w m s =
     (case canvasToTensor w of
        Inl e \<Rightarrow> Inl e
      | Inr x \<Rightarrow>
         (case tf_predict w m x of
            Inl e \<Rightarrow> Inl e
          | Inr arr \<Rightarrow>
             Inr (s\<lparr>prediction :=
                      Some \<lparr>label = elemAt (labels s) (indexOfMax arr), probs = arr\<rparr>\<rparr>)))"

definition predict :: "world \<Rightarrow> state \<Rightarrow> state" where
  "predict w s =
     (case model s of
        None \<Rightarrow> s\<lparr>status := ''Train (or load) a model first''\<rparr>
      | Some m \<Rightarrow>
         (case predict_try w m s of
            Inr s' \<Rightarrow> s'
          | Inl err \<Rightarrow> s\<lparr>status := ''Prediction failed: '' @ message err\<rparr>))"

text \<open>
  \<^verbatim>\<open>saveModel\<close>: the model artifact is written first; a throw of
  \<^verbatim>\<open>localStorage.setItem\<close> leaves it written and the labels unwritten.
\<close>

definition saveModel :: "world \<Rightarrow> state \<Rightarrow> state" where
  "saveModel w s =
     (case model s of
        None \<Rightarrow> s\<lparr>status := ''No trained model to save''\<rparr>
      | Some m \<Rightarrow>
         (case idb_save w of
            Some err \<Rightarrow> s\<lparr>status := ''Save failed: '' @ message err\<rparr>
          | None \<Rightarrow>
             (case ls_setItem w of
                Some err \<Rightarrow>
                  s\<lparr>indexeddb := Some \<lparr>modelTopology = layers m, weightData = weights m\<rparr>,
                    status := ''Save failed: '' @ message err\<rparr>
              | None \<Rightarrow>
                  s\<lparr>indexeddb := Some \<lparr>modelTopology = layers m, weightData = weights m\<rparr>,
                    localStorage := Some (JStrings (labels s)),
                    status := ''Model saved to IndexedDB''\<rparr>)))"

text \<open>
  \<^verbatim>\<open>tf.loadLayersModel("indexeddb://sketch-learner-model")\<close>: rejects when nothing is
  stored or the store cannot be read; the loaded model is not compiled.
\<close>

definition loadLayersModel :: "world \<Rightarrow> state \<Rightarrow> error + layersModel" where
  "loadLayersModel w s =
     (case idb_load w of
        Some err \<Rightarrow> Inl err
      | None \<Rightarrow>
         (case indexeddb s of
            None \<Rightarrow> Inl (Error ''Cannot find model with path sketch-learner-model in IndexedDB.'')
          | Some a \<Rightarrow> Inr \<lparr>layers = modelTopology a, compiled = None, weights = weightData a\<rparr>))"

text \<open>
  \<^verbatim>\<open>JSON.parse(localStorage.getItem("sketch-learner-labels") || "null")\<close>.
\<close>

definition savedLabels :: "state \<Rightarrow> json" where
  "savedLabels s = (case localStorage s of None \<Rightarrow> JNull | Some j \<Rightarrow> j)"

definition loadModel :: "world \<Rightarrow> state \<Rightarrow> state" where
  "loadModel w s =
     (case loadLayersModel w s of
        Inl e \<Rightarrow> s\<lparr>status := ''No saved model found''\<rparr>
      | Inr m \<Rightarrow>
         (case savedLabels s of
            JStrings (l # rest) \<Rightarrow>
              s\<lparr>model := Some m, labels := l # rest, currentLabel := Some l,
                status := ''Model loaded from IndexedDB''\<rparr>
          | _ \<Rightarrow> s\<lparr>model := Some m, status := ''Model loaded from IndexedDB''\<rparr>))"

definition addLabel :: "world \<Rightarrow> state \<Rightarrow> state" where
  "addLabel w s =
     (case prompt w of
        None \<Rightarrow> s
      | Some newLabel \<Rightarrow>
         if newLabel \<noteq> [] \<and> newLabel \<notin> set (labels s)
         then s\<lparr>labels := labels s @ [newLabel], currentLabel := Some newLabel\<rparr>
         else s)"

definition removeLabel :: "state \<Rightarrow> state" where
  "removeLabel s =
     (if length (labels s) \<le> 1 then s
      else (let updatedLabels = filter (\<lambda>l. Some l \<noteq> currentLabel s) (labels s)
            in s\<lparr>labels := updatedLabels, currentLabel := elemAt updatedLabels (Some 0)\<rparr>))"

text \<open>The \<^verbatim>\<open>select\<close> element offers the current labels only.\<close>

definition selectLabel :: "label \<Rightarrow> state \<Rightarrow> state" where
  "selectLabel l s = (if l \<in> set (labels s) then s\<lparr>currentLabel := Some l\<rparr> else s)"

section \<open>Sessions\<close>

text \<open>
  The initial values of the state hooks, over the persistent slots as the previous
  session left them; mounting the component calls \<^verbatim>\<open>loadModel\<close>.
\<close>

definition initialState :: "artifacts option \<Rightarrow> json option \<Rightarrow> state" where
  "initialState idb ls =
     \<lparr>labels = [''circle'', ''square''], currentLabel = Some ''circle'', examples = [],
      model = None, status = ''Ready'', prediction = None,
      datasetRef_xs = [], datasetRef_ys = [], indexeddb = idb, localStorage = ls\<rparr>"

definition mount :: "world \<Rightarrow> artifacts option \<Rightarrow> json option \<Rightarrow> state" where
  "mount w idb ls = loadModel w (initialState idb ls)"

datatype action =
    AddExample | Train | Predict | SaveModel | LoadModel | AddLabel | RemoveLabel
  | SelectLabel label | ClearCanvas | Reload

fun step :: "world \<Rightarrow> action \<Rightarrow> state \<Rightarrow> state" where
  "step w AddExample s = addExample w s"
| "step w Train s = train w s"
| "step w Predict s = predict w s"
| "step w SaveModel s = saveModel w s"
| "step w LoadModel s = loadModel w s"
| "step w AddLabel s = addLabel w s"
| "step w RemoveLabel s = removeLabel s"
| "step w (SelectLabel l) s = selectLabel l s"
| "step w ClearCanvas s = clearCanvas s"
| "step w Reload s = mount w (indexeddb s) (localStorage s)"

text \<open>
  The states the component can be in: the first mount finds both slots empty, and
  every later state comes from a handler call or a page reload.
\<close>

inductive reachable :: "state \<Rightarrow> bool" where
  reachable_mount: "reachable (mount w None None)"
| reachable_step: "reachable s \<Longrightarrow> reachable (step w a s)"

section \<open>The invariant of the label list\<close>

text \<open>
  The invariant of the label list: no label twice, at least one label, and
  \<^verbatim>\<open>indexOf\<close> of the label at a position is that position.
\<close>

definition labelSetOk :: "label list \<Rightarrow> bool" where
  "labelSetOk ls \<longleftrightarrow>
     distinct ls \<and> ls \<noteq> [] \<and> (\<forall>i<length ls. indexOf ls (ls ! i) = Some i)"

text \<open>
  The invariant on a state: it holds of the label list and of the label list stored
  under \<^verbatim>\<open>"sketch-learner-labels"\<close>, which \<^verbatim>\<open>loadModel\<close> installs unchecked.
\<close>

definition labelSetInv :: "state \<Rightarrow> bool" where
  "labelSetInv s \<longleftrightarrow>
     labelSetOk (labels s)
     \<and> (\<forall>l rest. localStorage s = Some (JStrings (l # rest)) \<longrightarrow> labelSetOk (l # rest))"

section \<open>Well-formed bitmaps\<close>

text \<open>
  A bitmap an existing canvas can deliver: at least one pixel, four bytes for each
  pixel, every byte at most 255.
\<close>

definition rasterOk :: "raster \<Rightarrow> bool" where
  "rasterOk c \<longleftrightarrow>
     0 < width c \<and> 0 < height c \<and> length (rgba c) = 4 * (height c * width c)
     \<and> list_all (\<lambda>p. p \<le> 255) (rgba c)"

section \<open>A sample session\<close>

text \<open>
  Concrete collaborators and the states of one session, used to run the handlers on
  explicit inputs: two examples are added under the initial labels, a model is trained,
  and then the label list is changed. The sample \<^verbatim>\<open>concat\<close> and \<^verbatim>\<open>fit\<close> check
  shapes as TensorFlow.js does: tensors to concatenate agree beyond the first axis, and
  the targets are as wide as the output layer.
\<close>

text \<open>A canvas of one white pixel, and one of four pixels in four shades of grey.\<close>

definition demoCanvas :: raster where
  "demoCanvas = \<lparr>width = 1, height = 1, rgba = [255, 255, 255, 255]\<rparr>"

definition greyCanvas :: raster where
  "greyCanvas =
     \<lparr>width = 2, height = 2,
      rgba = [0, 0, 0, 255, 255, 255, 255, 255, 128, 128, 128, 255, 64, 64, 64, 255]\<rparr>"

definition demoImage :: tensor where
  "demoImage = Tensor [1, 28, 28, 1] (replicate 784 1)"

definition demoConcat :: "tensor list \<Rightarrow> error + tensor" where
  "demoConcat ts =
     (case ts of
        [] \<Rightarrow> Inl (Error ''Pass at least one tensor to concat'')
      | t # rest \<Rightarrow>
         if list_all (\<lambda>u. tl (shape u) = tl (shape t)) rest
         then Inr (Tensor (length ts # tl (shape t)) (concat (map vals ts)))
         else Inl (Error ''Error in concat: shapes do not match along the non-concatenated axes''))"

definition demoFit :: "layersModel \<Rightarrow> tensor \<Rightarrow> tensor \<Rightarrow> real list \<times> error option" where
  "demoFit m X Y =
     (if outputWidth (layers m) = Some (last (shape Y)) then ([1], None)
      else (weights m,
            Some (Error ''Error when checking target: shape does not match the output layer'')))"

definition demoWorld :: world where
  "demoWorld =
     \<lparr>canvas = Some demoCanvas,
      tf_initialWeights = [0],
      tf_concat = demoConcat,
      tf_fit = demoFit,
      tf_predict = (\<lambda>m x. Inr [1 / 4, 3 / 4]),
      idb_save = None, idb_load = None, ls_setItem = None,
      prompt = None\<rparr>"

definition demoModel :: "nat \<Rightarrow> real list \<Rightarrow> layersModel" where
  "demoModel n wts =
     \<lparr>layers = [Conv2d (Some [28, 28, 1]) 16 3 Relu, MaxPool2d 2, Conv2d None 32 3 Relu,
                MaxPool2d 2, Flatten, Dense 64 Relu, Dropout (1 / 4), Dense n Softmax],
      compiled = Some \<lparr>optimizer = Adam (1 / 1000), loss = ''categoricalCrossentropy'',
                        metrics = [''accuracy'']\<rparr>,
      weights = wts\<rparr>"

definition demoTargets :: "tensor list" where
  "demoTargets = [Tensor [1, 2] [1, 0], Tensor [1, 2] [0, 1]]"

definition mounted :: state where
  "mounted = mount demoWorld None None"

definition twoExamples :: state where
  "twoExamples = addExample demoWorld (selectLabel ''square'' (addExample demoWorld mounted))"

definition trained :: state where
  "trained = train demoWorld twoExamples"

definition withTriangle :: state where
  "withTriangle = addLabel (demoWorld\<lparr>prompt := Some ''triangle''\<rparr>) trained"

definition withoutSquare :: state where
  "withoutSquare = removeLabel trained"

text \<open>
  The trained session saved, and \<^verbatim>\<open>"square"\<close> removed afterwards: one label is
  left, and two are stored.
\<close>

definition savedThenRemoved :: state where
  "savedThenRemoved = removeLabel (saveModel demoWorld trained)"

text \<open>
  A second session, in which the user adds the label \<^verbatim>\<open>"constructor"\<close>, the name of
  a member of \<^verbatim>\<open>Object.prototype\<close>.
\<close>

definition withConstructor :: state where
  "withConstructor = addLabel (demoWorld\<lparr>prompt := Some ''constructor''\<rparr>) mounted"

text \<open>
  A third example, added under \<^verbatim>\<open>"triangle"\<close>: its target has three columns, the two
  earlier ones have two.
\<close>

definition mixedWidths :: state where
  "mixedWidths = addExample demoWorld withTriangle"

section \<open>Array lookups\<close>

lemma indexOf_None_iff: "indexOf arr v = None \<longleftrightarrow> v \<notin> set arr"
  by (induction arr) auto

lemma indexOf_Some_first:
  "indexOf arr v = Some i \<Longrightarrow> i < length arr \<and> arr ! i = v \<and> (\<forall>j<i. arr ! j \<noteq> v)"
proof (induction arr arbitrary: i)
  case Nil
  then show ?case by simp
next
  case (Cons x rest)
  show ?case
  proof (cases "x = v")
    case True
    with Cons.prems show ?thesis by simp
  next
    case False
    with Cons.prems obtain k where k: "indexOf rest v = Some k" and i: "i = Suc k"
      by auto
    from Cons.IH [OF k] have ih: "k < length rest" "rest ! k = v" "\<forall>j<k. rest ! j \<noteq> v"
      by auto
    have "\<forall>j<i. (x # rest) ! j \<noteq> v"
    proof (intro allI impI)
      fix j assume "j < i"
      then show "(x # rest) ! j \<noteq> v"
        using False ih(3) i by (cases j) auto
    qed
    with ih i show ?thesis by simp
  qed
qed

lemma indexOf_first:
  "i < length arr \<Longrightarrow> arr ! i = v \<Longrightarrow> (\<forall>j<i. arr ! j \<noteq> v) \<Longrightarrow> indexOf arr v = Some i"
proof -
  assume i: "i < length arr" and v: "arr ! i = v" and first: "\<forall>j<i. arr ! j \<noteq> v"
  from i v have "v \<in> set arr" by auto
  then obtain k where k: "indexOf arr v = Some k"
    using indexOf_None_iff [of arr v] by (cases "indexOf arr v") auto
  from indexOf_Some_first [OF k] have "k < length arr" "arr ! k = v" "\<forall>j<k. arr ! j \<noteq> v"
    by auto
  have "\<not> k < i" using first \<open>arr ! k = v\<close> by blast
  moreover have "\<not> i < k" using \<open>\<forall>j<k. arr ! j \<noteq> v\<close> v by blast
  ultimately have "k = i" by simp
  with k show ?thesis by simp
qed

lemma indexOf_distinct: "distinct arr \<Longrightarrow> i < length arr \<Longrightarrow> indexOf arr (arr ! i) = Some i"
  by (rule indexOf_first) (auto simp: nth_eq_iff_index_eq)

section \<open>Preprocessing\<close>

text \<open>Mixing two values of the unit interval by a fraction stays in the unit interval.\<close>

lemma lerp_unit:
  fixes a b t :: real
  assumes "0 \<le> a" "a \<le> 1" "0 \<le> b" "b \<le> 1" "0 \<le> t" "t \<le> 1"
  shows "0 \<le> a + (b - a) * t \<and> a + (b - a) * t \<le> 1"
proof -
  have eq: "a + (b - a) * t = a * (1 - t) + b * t" by (simp add: algebra_simps)
  have "0 \<le> a * (1 - t)" "0 \<le> b * t" using assms by simp_all
  then have lo: "0 \<le> a * (1 - t) + b * t" by simp
  have "a * (1 - t) \<le> 1 * (1 - t)" "b * t \<le> 1 * t"
    using assms by (intro mult_right_mono; simp)+
  then have hi: "a * (1 - t) + b * t \<le> 1" by simp
  show ?thesis unfolding eq using lo hi by blast
qed

lemma sourceFrac_bounds:
  assumes "0 < newSize" "i < newSize"
  shows "0 \<le> sourceFrac oldSize newSize i" "0 < oldSize \<Longrightarrow> sourceFrac oldSize newSize i < real oldSize"
proof -
  show "0 \<le> sourceFrac oldSize newSize i" by (simp add: sourceFrac_def)
  assume old: "0 < oldSize"
  have "real i / real newSize < 1" using assms by simp
  then have "real oldSize * (real i / real newSize) < real oldSize * 1"
    using old by (intro mult_strict_left_mono) simp_all
  then show "sourceFrac oldSize newSize i < real oldSize"
    by (simp add: sourceFrac_def)
qed

lemma sourceFloor_bounds:
  assumes "0 < oldSize" "0 < newSize" "i < newSize"
  shows "sourceFloor oldSize newSize i < oldSize"
    and "0 \<le> sourceFrac oldSize newSize i - real (sourceFloor oldSize newSize i)"
    and "sourceFrac oldSize newSize i - real (sourceFloor oldSize newSize i) \<le> 1"
    and "sourceCeil oldSize newSize i < oldSize"
proof -
  let ?x = "sourceFrac oldSize newSize i"
  have x0: "0 \<le> ?x" and x1: "?x < real oldSize"
    using sourceFrac_bounds [OF assms(2,3)] assms(1) by auto
  have fl: "real (nat \<lfloor>?x\<rfloor>) = of_int \<lfloor>?x\<rfloor>" using x0 by simp
  have "\<lfloor>?x\<rfloor> < int oldSize" using x1 by (simp add: floor_less_iff)
  then show "sourceFloor oldSize newSize i < oldSize"
    using assms(1) by (simp add: sourceFloor_def)
  show "0 \<le> ?x - real (sourceFloor oldSize newSize i)"
    unfolding sourceFloor_def fl by linarith
  show "?x - real (sourceFloor oldSize newSize i) \<le> 1"
    unfolding sourceFloor_def fl by linarith
  have "sourceCeil oldSize newSize i \<le> oldSize - 1"
    by (simp add: sourceCeil_def)
  with assms(1) show "sourceCeil oldSize newSize i < oldSize" by simp
qed

lemma pixel_index:
  assumes "y < h" "x < w" "d < ch"
  shows "(y * w + x) * ch + d < h * w * (ch::nat)"
proof -
  have "y * w + x + 1 \<le> y * w + w" using assms(2) by simp
  also have "\<dots> = (y + 1) * w" by simp
  also have "\<dots> \<le> h * w" using assms(1) by (intro mult_le_mono1) simp
  finally have a: "y * w + x + 1 \<le> h * w" .
  have "(y * w + x) * ch + d < (y * w + x) * ch + ch" using assms(3) by simp
  also have "\<dots> = (y * w + x + 1) * ch" by simp
  also have "\<dots> \<le> h * w * ch" using a by (intro mult_le_mono1)
  finally show ?thesis .
qed

lemma bilinear_unit:
  assumes len: "length v = oldHeight * oldWidth * ch"
    and unit: "\<forall>p\<in>set v. 0 \<le> p \<and> p \<le> 1"
    and pos: "0 < oldHeight" "0 < oldWidth" "0 < newHeight" "0 < newWidth"
    and idx: "r < newHeight" "c < newWidth" "d < ch"
  shows "0 \<le> bilinear v oldHeight oldWidth ch newHeight newWidth r c d
       \<and> bilinear v oldHeight oldWidth ch newHeight newWidth r c d \<le> 1"
proof -
  note rb = sourceFloor_bounds [OF pos(1) pos(3) idx(1)]
  note cb = sourceFloor_bounds [OF pos(2) pos(4) idx(2)]
  have px: "0 \<le> v ! ((y * oldWidth + x) * ch + d) \<and> v ! ((y * oldWidth + x) * ch + d) \<le> 1"
    if "y < oldHeight" "x < oldWidth" for y x
  proof -
    from pixel_index [OF that idx(3)] len have "(y * oldWidth + x) * ch + d < length v" by simp
    then have "v ! ((y * oldWidth + x) * ch + d) \<in> set v" by simp
    with unit show ?thesis by blast
  qed
  let ?cf = "sourceFrac oldWidth newWidth c - real (sourceFloor oldWidth newWidth c)"
  let ?rf = "sourceFrac oldHeight newHeight r - real (sourceFloor oldHeight newHeight r)"
  let ?tl = "v ! ((sourceFloor oldHeight newHeight r * oldWidth + sourceFloor oldWidth newWidth c) * ch + d)"
  let ?bl = "v ! ((sourceCeil oldHeight newHeight r * oldWidth + sourceFloor oldWidth newWidth c) * ch + d)"
  let ?tr = "v ! ((sourceFloor oldHeight newHeight r * oldWidth + sourceCeil oldWidth newWidth c) * ch + d)"
  let ?br = "v ! ((sourceCeil oldHeight newHeight r * oldWidth + sourceCeil oldWidth newWidth c) * ch + d)"
  have tl: "0 \<le> ?tl \<and> ?tl \<le> 1" by (rule px [OF rb(1) cb(1)])
  have bl: "0 \<le> ?bl \<and> ?bl \<le> 1" by (rule px [OF rb(4) cb(1)])
  have tr: "0 \<le> ?tr \<and> ?tr \<le> 1" by (rule px [OF rb(1) cb(4)])
  have br: "0 \<le> ?br \<and> ?br \<le> 1" by (rule px [OF rb(4) cb(4)])
  have top: "0 \<le> ?tl + (?tr - ?tl) * ?cf \<and> ?tl + (?tr - ?tl) * ?cf \<le> 1"
    using tl tr cb(2,3) by (intro lerp_unit) auto
  have bottom: "0 \<le> ?bl + (?br - ?bl) * ?cf \<and> ?bl + (?br - ?bl) * ?cf \<le> 1"
    using bl br cb(2,3) by (intro lerp_unit) auto
  have "0 \<le> (?tl + (?tr - ?tl) * ?cf) + ((?bl + (?br - ?bl) * ?cf) - (?tl + (?tr - ?tl) * ?cf)) * ?rf
      \<and> (?tl + (?tr - ?tl) * ?cf) + ((?bl + (?br - ?bl) * ?cf) - (?tl + (?tr - ?tl) * ?cf)) * ?rf \<le> 1"
    using top bottom rb(2,3) by (intro lerp_unit) auto
  then show ?thesis by (simp add: bilinear_def Let_def)
qed

lemma length_concat_map_const:
  "(\<And>x. x \<in> set xs \<Longrightarrow> length (f x) = m) \<Longrightarrow> length (concat (map f xs)) = length xs * m"
  by (induction xs) auto

lemma resizeBilinear_unit:
  assumes sh: "shape img = [oldHeight, oldWidth, ch]"
    and len: "length (vals img) = oldHeight * oldWidth * ch"
    and unit: "\<forall>p\<in>set (vals img). 0 \<le> p \<and> p \<le> 1"
    and pos: "0 < oldHeight" "0 < oldWidth" "0 < newHeight" "0 < newWidth"
  shows "\<exists>t. resizeBilinear img newHeight newWidth = Inr t
           \<and> shape t = [newHeight, newWidth, ch]
           \<and> length (vals t) = newHeight * newWidth * ch
           \<and> (\<forall>p\<in>set (vals t). 0 \<le> p \<and> p \<le> 1)"
proof -
  let ?row = "\<lambda>r. concat (map (\<lambda>c.
               map (\<lambda>d. bilinear (vals img) oldHeight oldWidth ch newHeight newWidth r c d) [0..<ch])
               [0..<newWidth])"
  let ?t = "Tensor [newHeight, newWidth, ch] (concat (map ?row [0..<newHeight]))"
  have run: "resizeBilinear img newHeight newWidth = Inr ?t"
    by (simp add: resizeBilinear_def sh)
  have rowlen: "length (?row r) = newWidth * ch" for r
    by (subst length_concat_map_const [where m = ch]) simp_all
  have "length (concat (map ?row [0..<newHeight])) = newHeight * (newWidth * ch)"
    by (subst length_concat_map_const [where m = "newWidth * ch"]) (simp_all add: rowlen)
  then have l: "length (vals ?t) = newHeight * newWidth * ch" by (simp add: mult.assoc)
  have u: "\<forall>p\<in>set (vals ?t). 0 \<le> p \<and> p \<le> 1"
  proof
    fix p assume "p \<in> set (vals ?t)"
    then obtain r c d where "r < newHeight" "c < newWidth" "d < ch"
      and p: "p = bilinear (vals img) oldHeight oldWidth ch newHeight newWidth r c d"
      by auto
    with bilinear_unit [OF len unit pos this(1-3)] show "0 \<le> p \<and> p \<le> 1" by simp
  qed
  from run l u show ?thesis by (intro exI [of _ ?t]) simp
qed

lemma fromPixels_gray:
  assumes "rasterOk c"
  shows "\<exists>t. fromPixels c 1 = Inr t \<and> shape t = [height c, width c, 1]
           \<and> length (vals t) = height c * width c
           \<and> (\<forall>p\<in>set (vals t). 0 \<le> p \<and> p \<le> 255)"
proof -
  from assms have pos: "0 < width c" "0 < height c"
    and len: "length (rgba c) = 4 * (height c * width c)"
    and byte: "\<forall>p\<in>set (rgba c). p \<le> 255"
    by (simp_all add: rasterOk_def list_all_iff)
  let ?v = "map (\<lambda>i. real (rgba c ! (i * 4))) [0..<height c * width c]"
  have run: "fromPixels c 1 = Inr (Tensor [height c, width c, 1] ?v)"
    using pos by (simp add: fromPixels_def concat_map_singleton)
  have "\<forall>p\<in>set ?v. 0 \<le> p \<and> p \<le> 255"
  proof
    fix p assume "p \<in> set ?v"
    then obtain i where i: "i < height c * width c" and p: "p = real (rgba c ! (i * 4))"
      by auto
    from i len have "i * 4 < length (rgba c)" by simp
    then have "rgba c ! (i * 4) \<in> set (rgba c)" by simp
    with byte have "rgba c ! (i * 4) \<le> 255" by blast
    with p show "0 \<le> p \<and> p \<le> 255" by simp
  qed
  with run show ?thesis by simp
qed

lemma map_constant: "(\<And>x. x \<in> set xs \<Longrightarrow> f x = a) \<Longrightarrow> map f xs = replicate (length xs) a"
  by (induction xs) auto

lemma concat_map_constant:
  "(\<And>x. x \<in> set xs \<Longrightarrow> f x = replicate m a) \<Longrightarrow>
   concat (map f xs) = replicate (length xs * m) a"
  by (induction xs) (auto simp: replicate_add)

text \<open>An image of one value everywhere is resized to that value everywhere.\<close>

lemma bilinear_constant:
  assumes len: "length v = oldHeight * oldWidth * ch"
    and const: "\<forall>p\<in>set v. p = a"
    and pos: "0 < oldHeight" "0 < oldWidth" "0 < newHeight" "0 < newWidth"
    and idx: "r < newHeight" "c < newWidth" "d < ch"
  shows "bilinear v oldHeight oldWidth ch newHeight newWidth r c d = a"
proof -
  note rb = sourceFloor_bounds [OF pos(1) pos(3) idx(1)]
  note cb = sourceFloor_bounds [OF pos(2) pos(4) idx(2)]
  have px: "v ! ((y * oldWidth + x) * ch + d) = a" if "y < oldHeight" "x < oldWidth" for y x
  proof -
    from pixel_index [OF that idx(3)] len have "(y * oldWidth + x) * ch + d < length v" by simp
    then have "v ! ((y * oldWidth + x) * ch + d) \<in> set v" by simp
    with const show ?thesis by blast
  qed
  show ?thesis
    by (simp add: bilinear_def Let_def px [OF rb(1) cb(1)] px [OF rb(4) cb(1)]
        px [OF rb(1) cb(4)] px [OF rb(4) cb(4)])
qed

lemma resizeBilinear_constant:
  assumes pos: "0 < newHeight" "0 < newWidth"
  shows "resizeBilinear (Tensor [1, 1, 1] [a]) newHeight newWidth =
           Inr (Tensor [newHeight, newWidth, 1] (replicate (newHeight * newWidth) a))"
proof -
  have one: "bilinear [a] 1 1 1 newHeight newWidth r c d = a"
    if "r < newHeight" "c < newWidth" "d < 1" for r c d
    using that pos by (intro bilinear_constant) simp_all
  have row: "concat (map (\<lambda>c. map (\<lambda>d. bilinear [a] 1 1 1 newHeight newWidth r c d) [0..<1])
               [0..<newWidth]) = replicate newWidth a"
    if "r < newHeight" for r
    using concat_map_constant [of "[0..<newWidth]"
        "\<lambda>c. map (\<lambda>d. bilinear [a] 1 1 1 newHeight newWidth r c d) [0..<1]" 1 a]
      one [OF that]
    by simp
  have "concat (map (\<lambda>r. concat (map (\<lambda>c.
          map (\<lambda>d. bilinear [a] 1 1 1 newHeight newWidth r c d) [0..<1]) [0..<newWidth]))
          [0..<newHeight]) = replicate (newHeight * newWidth) a"
    using concat_map_constant [of "[0..<newHeight]"
        "\<lambda>r. concat (map (\<lambda>c. map (\<lambda>d. bilinear [a] 1 1 1 newHeight newWidth r c d) [0..<1])
               [0..<newWidth])" newWidth a] row
    by simp
  then show ?thesis by (simp add: resizeBilinear_def)
qed

text \<open>The white pixel of the sample canvas gives the all-ones image.\<close>

lemma canvasToTensor_demoCanvas:
  assumes "canvas w = Some demoCanvas"
  shows "canvasToTensor w = Inr demoImage"
proof -
  have px: "fromPixels demoCanvas 1 = Inr (Tensor [1, 1, 1] [255])"
    by (simp add: fromPixels_def demoCanvas_def)
  have "resizeBilinear (Tensor [1, 1, 1] [1]) imageSize imageSize =
      Inr (Tensor [imageSize, imageSize, 1] (replicate (imageSize * imageSize) 1))"
    by (rule resizeBilinear_constant) (simp_all add: imageSize_def)
  with px assms show ?thesis
    by (simp add: canvasToTensor_def divScalar_def toFloat_def expandDims0_def imageSize_def
        demoImage_def)
qed

text \<open>
  C2. For every canvas bitmap with at least one pixel and bytes up to 255, whatever its
  height and width, \<^verbatim>\<open>canvasToTensor\<close> returns a tensor of shape \<open>[1, 28, 28, 1]\<close> with
  784 values, all between 0 and 1: the result of taking one channel, dividing by 255,
  resizing bilinearly to 28 by 28 and adding the leading axis.
\<close>

theorem canvasToTensor_shape_range:
  assumes "canvas w = Some c" and "rasterOk c"
  shows "\<exists>t. canvasToTensor w = Inr t
           \<and> shape t = [1, 28, 28, 1]
           \<and> length (vals t) = 784
           \<and> (\<forall>p\<in>set (vals t). 0 \<le> p \<and> p \<le> 1)
           \<and> (\<exists>pixels resized. fromPixels c 1 = Inr pixels
                 \<and> resizeBilinear (divScalar (toFloat pixels) 255) 28 28 = Inr resized
                 \<and> t = expandDims0 resized)"
proof -
  from assms(2) have pos: "0 < width c" "0 < height c" by (simp_all add: rasterOk_def)
  from fromPixels_gray [OF assms(2)] obtain px where px: "fromPixels c 1 = Inr px"
    and sh: "shape px = [height c, width c, 1]"
    and len: "length (vals px) = height c * width c"
    and byte: "\<forall>p\<in>set (vals px). 0 \<le> p \<and> p \<le> 255"
    by blast
  let ?img = "divScalar (toFloat px) 255"
  have sh': "shape ?img = [height c, width c, 1]" by (simp add: divScalar_def toFloat_def sh)
  have len': "length (vals ?img) = height c * width c * 1"
    by (simp add: divScalar_def toFloat_def len)
  have unit: "\<forall>p\<in>set (vals ?img). 0 \<le> p \<and> p \<le> 1"
    using byte by (auto simp: divScalar_def toFloat_def)
  from resizeBilinear_unit [OF sh' len' unit pos(2) pos(1), of 28 28]
  obtain t where t: "resizeBilinear ?img 28 28 = Inr t"
    and tsh: "shape t = [28, 28, 1]"
    and tlen: "length (vals t) = 28 * 28 * 1"
    and tunit: "\<forall>p\<in>set (vals t). 0 \<le> p \<and> p \<le> 1"
    by auto
  have "canvasToTensor w = Inr (expandDims0 t)"
    using px t assms(1) by (simp add: canvasToTensor_def imageSize_def)
  moreover have "shape (expandDims0 t) = [1, 28, 28, 1]"
    by (simp add: expandDims0_def tsh)
  moreover have "length (vals (expandDims0 t)) = 784"
    by (simp add: expandDims0_def tlen)
  moreover have "\<forall>p\<in>set (vals (expandDims0 t)). 0 \<le> p \<and> p \<le> 1"
    using tunit by (simp add: expandDims0_def)
  ultimately show ?thesis using px t by blast
qed

text \<open>
  C2 on the two sample canvases: the four grey pixels give a tensor of the stated shape
  and range, and the single white pixel gives 784 ones.
\<close>

theorem canvasToTensor_shape_range_witness:
  "canvas (demoWorld\<lparr>canvas := Some greyCanvas\<rparr>) = Some greyCanvas
   \<and> rasterOk greyCanvas
   \<and> (\<exists>t. canvasToTensor (demoWorld\<lparr>canvas := Some greyCanvas\<rparr>) = Inr t
         \<and> shape t = [1, 28, 28, 1] \<and> length (vals t) = 784
         \<and> list_all (\<lambda>p. 0 \<le> p \<and> p \<le> 1) (vals t))
   \<and> canvas demoWorld = Some demoCanvas
   \<and> rasterOk demoCanvas
   \<and> canvasToTensor demoWorld = Inr (Tensor [1, 28, 28, 1] (replicate 784 1))"
proof -
  let ?w = "demoWorld\<lparr>canvas := Some greyCanvas\<rparr>"
  have c: "canvas ?w = Some greyCanvas" by simp
  have ok: "rasterOk greyCanvas" by (simp add: rasterOk_def greyCanvas_def)
  have c': "canvas demoWorld = Some demoCanvas" by (simp add: demoWorld_def)
  have ok': "rasterOk demoCanvas" by (simp add: rasterOk_def demoCanvas_def)
  from canvasToTensor_shape_range [OF c ok]
  have grey: "\<exists>t. canvasToTensor ?w = Inr t
         \<and> shape t = [1, 28, 28, 1] \<and> length (vals t) = 784
         \<and> list_all (\<lambda>p. 0 \<le> p \<and> p \<le> 1) (vals t)"
    by (auto simp: list_all_iff)
  from canvasToTensor_demoCanvas [OF c']
  have "canvasToTensor demoWorld = Inr (Tensor [1, 28, 28, 1] (replicate 784 1))"
    by (simp add: demoImage_def)
  with c ok grey c' ok' show ?thesis by blast
qed

section \<open>The sample session, step by step\<close>

lemma canvasToTensor_demo [simp]: "canvasToTensor (demoWorld\<lparr>prompt := p\<rparr>) = Inr demoImage"
  "canvasToTensor (demoWorld\<lparr>tf_predict := q\<rparr>) = Inr demoImage"
  "canvasToTensor demoWorld = Inr demoImage"
  by (rule canvasToTensor_demoCanvas, simp add: demoWorld_def)+

lemma showNat_digit: "n < 10 \<Longrightarrow> showNat n = [digitChar n]"
  by (simp add: showNat.simps)

lemma oneHot_2 [simp]:
  "oneHot 0 (Suc (Suc 0)) = Inr (Tensor [2] [1, 0])"
  "oneHot (Suc 0) (Suc (Suc 0)) = Inr (Tensor [2] [0, 1])"
  by (simp_all add: oneHot_def upt_rec)

lemma mounted_eq:
  "mounted = \<lparr>labels = [''circle'', ''square''], currentLabel = Some ''circle'', examples = [],
      model = None, status = ''No saved model found'', prediction = None,
      datasetRef_xs = [], datasetRef_ys = [], indexeddb = None, localStorage = None\<rparr>"
  by (simp add: mounted_def mount_def initialState_def loadModel_def loadLayersModel_def
      demoWorld_def)

lemma twoExamples_eq:
  \<open>twoExamples = \<lparr>labels = [''circle'', ''square''], currentLabel = Some ''square'',
      examples = [(''circle'', JNum 1), (''square'', JNum 1)],
      model = None, status = ''Added example for "square"'', prediction = None,
      datasetRef_xs = [demoImage, demoImage], datasetRef_ys = demoTargets,
      indexeddb = None, localStorage = None\<rparr>\<close>
  by (simp add: twoExamples_def mounted_eq addExample_def addExample_try_def selectLabel_def
      clearCanvas_def showLabel_def getProp_def orZero_def objectPrototype_def
      expandDims0_def demoTargets_def)

lemma trained_eq:
  \<open>trained = \<lparr>labels = [''circle'', ''square''], currentLabel = Some ''square'',
      examples = [(''circle'', JNum 1), (''square'', JNum 1)],
      model = Some (demoModel 2 [1]), status = ''Training complete!'', prediction = None,
      datasetRef_xs = [demoImage, demoImage], datasetRef_ys = demoTargets,
      indexeddb = None, localStorage = None\<rparr>\<close>
  by (simp add: trained_def twoExamples_eq train_def train_try_def buildModel_def dense_def
      sequential_def add_def compile_def imageSize_def demoWorld_def demoConcat_def
      demoFit_def demoTargets_def demoModel_def)

lemma withTriangle_eq:
  \<open>withTriangle = \<lparr>labels = [''circle'', ''square'', ''triangle''],
      currentLabel = Some ''triangle'',
      examples = [(''circle'', JNum 1), (''square'', JNum 1)],
      model = Some (demoModel 2 [1]), status = ''Training complete!'', prediction = None,
      datasetRef_xs = [demoImage, demoImage], datasetRef_ys = demoTargets,
      indexeddb = None, localStorage = None\<rparr>\<close>
  by (simp add: withTriangle_def trained_eq addLabel_def)

lemma withoutSquare_eq:
  \<open>withoutSquare = \<lparr>labels = [''circle''], currentLabel = Some ''circle'',
      examples = [(''circle'', JNum 1), (''square'', JNum 1)],
      model = Some (demoModel 2 [1]), status = ''Training complete!'', prediction = None,
      datasetRef_xs = [demoImage, demoImage], datasetRef_ys = demoTargets,
      indexeddb = None, localStorage = None\<rparr>\<close>
  by (simp add: withoutSquare_def trained_eq removeLabel_def elemAt_def)

lemma oneHot_3 [simp]:
  "oneHot (Suc (Suc 0)) (Suc (Suc (Suc 0))) = Inr (Tensor [3] [0, 0, 1])"
  by (simp add: oneHot_def upt_rec)

lemma mixedWidths_eq:
  \<open>mixedWidths = \<lparr>labels = [''circle'', ''square'', ''triangle''],
      currentLabel = Some ''triangle'',
      examples = [(''circle'', JNum 1), (''square'', JNum 1), (''triangle'', JNum 1)],
      model = Some (demoModel 2 [1]), status = ''Added example for "triangle"'',
      prediction = None,
      datasetRef_xs = [demoImage, demoImage, demoImage],
      datasetRef_ys = demoTargets @ [Tensor [1, 3] [0, 0, 1]],
      indexeddb = None, localStorage = None\<rparr>\<close>
  by (simp add: mixedWidths_def withTriangle_eq addExample_def addExample_try_def
      clearCanvas_def showLabel_def getProp_def orZero_def objectPrototype_def
      expandDims0_def)

lemma savedThenRemoved_eq:
  \<open>savedThenRemoved = \<lparr>labels = [''circle''], currentLabel = Some ''circle'',
      examples = [(''circle'', JNum 1), (''square'', JNum 1)],
      model = Some (demoModel 2 [1]), status = ''Model saved to IndexedDB'', prediction = None,
      datasetRef_xs = [demoImage, demoImage], datasetRef_ys = demoTargets,
      indexeddb = Some \<lparr>modelTopology = layers (demoModel 2 [1]), weightData = [1]\<rparr>,
      localStorage = Some (JStrings [''circle'', ''square''])\<rparr>\<close>
  by (simp add: savedThenRemoved_def trained_eq saveModel_def removeLabel_def elemAt_def
      demoWorld_def) (simp add: demoModel_def)

lemma reachable_mounted: "reachable mounted"
  unfolding mounted_def by (rule reachable_mount)

lemma reachable_twoExamples: "reachable twoExamples"
proof -
  have "reachable (step demoWorld AddExample mounted)"
    by (rule reachable_step [OF reachable_mounted])
  then have "reachable (step demoWorld (SelectLabel ''square'') (step demoWorld AddExample mounted))"
    by (rule reachable_step)
  then have "reachable (step demoWorld AddExample
      (step demoWorld (SelectLabel ''square'') (step demoWorld AddExample mounted)))"
    by (rule reachable_step)
  then show ?thesis by (simp add: twoExamples_def)
qed

lemma reachable_trained: "reachable trained"
  using reachable_step [OF reachable_twoExamples, of demoWorld Train]
  by (simp add: trained_def)


lemma reachable_withoutSquare: "reachable withoutSquare"
  using reachable_step [OF reachable_trained, of demoWorld RemoveLabel]
  by (simp add: withoutSquare_def)

section \<open>Training precondition\<close>

text \<open>
  C5. When the dataset holds fewer examples than there are labels, \<^verbatim>\<open>train\<close> only
  sets the status line to the request for more examples: the live model, and every
  other part of the state, is exactly as before the call.
\<close>

theorem train_insufficient_data:
  assumes "length (datasetRef_xs s) < length (labels s)"
  shows "train w s =
           s\<lparr>status := ''Need at least 1 example per class ('' @ showNat (length (labels s))
                        @ '' total)''\<rparr>
         \<and> model (train w s) = model s"
  using assms by (simp add: train_def)

text \<open>
  C5 on the sample session: after a third label was added, two examples are too few;
  the model trained before stays live.
\<close>

theorem train_insufficient_data_witness:
  "length (datasetRef_xs withTriangle) < length (labels withTriangle)
   \<and> train demoWorld withTriangle =
       withTriangle\<lparr>status := ''Need at least 1 example per class (3 total)''\<rparr>
   \<and> model (train demoWorld withTriangle) = Some (demoModel 2 [1])"
proof -
  have short: "length (datasetRef_xs withTriangle) < length (labels withTriangle)"
    by (simp add: withTriangle_eq)
  have three: "showNat (length (labels withTriangle)) = ''3''"
    by (simp add: withTriangle_eq showNat_digit digitChar_def)
  from train_insufficient_data [OF short, of demoWorld] short three show ?thesis
    by (simp add: withTriangle_eq)
qed

section \<open>Adding an example\<close>

lemma addExample_try_unknown:
  assumes "canvasToTensor w = Inr x" and "currentLabel s \<notin> Some ` set (labels s)"
  shows \<open>addExample_try w s =
           Inl (Error (''Label "'' @ showLabel (currentLabel s) @ ''" not found''))\<close>
proof (cases "currentLabel s")
  case None
  with assms(1) show ?thesis by (simp add: addExample_try_def)
next
  case (Some c)
  with assms(2) have "c \<notin> set (labels s)" by auto
  then have "indexOf (labels s) c = None" by (simp add: indexOf_None_iff)
  with Some assms(1) show ?thesis by (simp add: addExample_try_def)
qed

lemma addExample_try_unknown_fails:
  assumes "currentLabel s \<notin> Some ` set (labels s)"
  shows "\<exists>e. addExample_try w s = Inl e"
proof (cases "canvasToTensor w")
  case (Inl e)
  then show ?thesis by (simp add: addExample_try_def)
next
  case (Inr x)
  from addExample_try_unknown [OF Inr assms] show ?thesis by blast
qed

text \<open>
  C6. When the current label is not in the label list, \<^verbatim>\<open>addExample\<close> changes
  nothing but the status line: no tensor and no target is pushed and the
  \<^verbatim>\<open>examples\<close> counts are the same object as before. With a canvas snapshot at hand,
  the error thrown inside the handler is the unknown-label error, and the status line
  reports it.
\<close>

theorem addExample_unknown_label:
  assumes "currentLabel s \<notin> Some ` set (labels s)"
  shows \<open>datasetRef_xs (addExample w s) = datasetRef_xs s
         \<and> datasetRef_ys (addExample w s) = datasetRef_ys s
         \<and> examples (addExample w s) = examples s
         \<and> (\<forall>x. canvasToTensor w = Inr x \<longrightarrow>
               addExample_try w s =
                 Inl (Error (''Label "'' @ showLabel (currentLabel s) @ ''" not found''))
               \<and> addExample w s =
                 s\<lparr>status := ''Failed to add example: Label "''
                              @ showLabel (currentLabel s) @ ''" not found''\<rparr>)\<close>
proof -
  obtain e where e: "addExample_try w s = Inl e"
    using addExample_try_unknown_fails [OF assms] by blast
  have frame: "datasetRef_xs (addExample w s) = datasetRef_xs s
      \<and> datasetRef_ys (addExample w s) = datasetRef_ys s
      \<and> examples (addExample w s) = examples s"
    by (simp add: addExample_def e)
  have \<open>addExample_try w s =
          Inl (Error (''Label "'' @ showLabel (currentLabel s) @ ''" not found''))
        \<and> addExample w s =
          s\<lparr>status := ''Failed to add example: Label "''
                       @ showLabel (currentLabel s) @ ''" not found''\<rparr>\<close>
    if "canvasToTensor w = Inr x" for x
    using addExample_try_unknown [OF that assms] by (simp add: addExample_def)
  with frame show ?thesis by blast
qed

text \<open>
  C6 on a state whose current label \<^verbatim>\<open>"star"\<close> is not among the labels.
\<close>

theorem addExample_unknown_label_witness:
  \<open>currentLabel (trained\<lparr>currentLabel := Some ''star''\<rparr>)
     \<notin> Some ` set (labels (trained\<lparr>currentLabel := Some ''star''\<rparr>))
   \<and> datasetRef_xs (addExample demoWorld (trained\<lparr>currentLabel := Some ''star''\<rparr>))
       = [demoImage, demoImage]
   \<and> datasetRef_ys (addExample demoWorld (trained\<lparr>currentLabel := Some ''star''\<rparr>))
       = demoTargets
   \<and> examples (addExample demoWorld (trained\<lparr>currentLabel := Some ''star''\<rparr>))
       = [(''circle'', JNum 1), (''square'', JNum 1)]
   \<and> status (addExample demoWorld (trained\<lparr>currentLabel := Some ''star''\<rparr>))
       = ''Failed to add example: Label "star" not found''\<close>
proof -
  let ?s = "trained\<lparr>currentLabel := Some ''star''\<rparr>"
  have unknown: "currentLabel ?s \<notin> Some ` set (labels ?s)"
    by (simp add: trained_eq image_iff)
  from addExample_unknown_label [OF unknown, of demoWorld] unknown show ?thesis
    by (simp add: trained_eq showLabel_def)
qed

section \<open>Counting examples\<close>

lemma labelCount_update_other:
  "l \<noteq> c \<Longrightarrow> labelCount (AList.update c v obj) l = labelCount obj l"
  by (simp add: labelCount_def getProp_def update_conv')

lemma labelCount_update_same:
  "labelCount (AList.update c v obj) c = orZero (Some v)"
  by (simp add: labelCount_def getProp_def update_conv')

text \<open>
  For a label whose count is a number, a successful \<^verbatim>\<open>addExample\<close> adds one to that
  count, leaves the count of every other label alone, and pushes the snapshot together
  with the one-hot row of the label's index, as wide as the label list.
\<close>

lemma addExample_counts:
  assumes cur: "currentLabel s = Some c"
    and idx: "indexOf (labels s) c = Some i"
    and cap: "canvasToTensor w = Inr x"
    and depth: "2 \<le> length (labels s)"
    and num: "labelCount (examples s) c = JNum n"
  shows "labelCount (examples (addExample w s)) c = JNum (n + 1)"
    and "\<forall>l. l \<noteq> c \<longrightarrow> labelCount (examples (addExample w s)) l = labelCount (examples s) l"
    and "datasetRef_xs (addExample w s) = datasetRef_xs s @ [x]"
    and "datasetRef_ys (addExample w s) = datasetRef_ys s @
           [Tensor [1, length (labels s)]
              (map (\<lambda>j. if j = i then 1 else 0) [0..<length (labels s)])]"
proof -
  have hot: "oneHot i (length (labels s)) =
      Inr (Tensor [length (labels s)] (map (\<lambda>j. if j = i then 1 else 0) [0..<length (labels s)]))"
    using depth by (simp add: oneHot_def)
  have run: "addExample w s =
      clearCanvas
        (s\<lparr>datasetRef_xs := datasetRef_xs s @ [x],
           datasetRef_ys := datasetRef_ys s @
             [expandDims0 (Tensor [length (labels s)]
                (map (\<lambda>j. if j = i then 1 else 0) [0..<length (labels s)]))],
           examples := AList.update c (plusOne (orZero (getProp (examples s) c))) (examples s),
           status := ''Added example for '' @ [CHR 0x22] @ c @ [CHR 0x22]\<rparr>)"
    by (simp add: addExample_def addExample_try_def cap cur idx hot showLabel_def)
  from num have "orZero (getProp (examples s) c) = JNum n"
    by (simp add: labelCount_def)
  then show "labelCount (examples (addExample w s)) c = JNum (n + 1)"
    by (simp add: run clearCanvas_def labelCount_update_same orZero_def)
  show "\<forall>l. l \<noteq> c \<longrightarrow> labelCount (examples (addExample w s)) l = labelCount (examples s) l"
    by (simp add: run clearCanvas_def labelCount_update_other)
  show "datasetRef_xs (addExample w s) = datasetRef_xs s @ [x]"
    by (simp add: run clearCanvas_def)
  show "datasetRef_ys (addExample w s) = datasetRef_ys s @
           [Tensor [1, length (labels s)]
              (map (\<lambda>j. if j = i then 1 else 0) [0..<length (labels s)])]"
    by (simp add: run clearCanvas_def expandDims0_def)
qed

lemma withConstructor_eq:
  "withConstructor =
     \<lparr>labels = [''circle'', ''square'', ''constructor''], currentLabel = Some ''constructor'',
      examples = [], model = None, status = ''No saved model found'', prediction = None,
      datasetRef_xs = [], datasetRef_ys = [], indexeddb = None, localStorage = None\<rparr>"
  by (simp add: withConstructor_def mounted_eq addLabel_def)

lemma reachable_withConstructor: "reachable withConstructor"
  using reachable_step [OF reachable_mounted, of "demoWorld\<lparr>prompt := Some ''constructor''\<rparr>" AddLabel]
  by (simp add: withConstructor_def)

text \<open>
  C7 at the label \<^verbatim>\<open>"constructor"\<close>. The label is in the label list and the call
  succeeds, one tensor and its one-hot target are pushed, but
  \<^verbatim>\<open>prev[currentLabel] || 0\<close> reads the inherited \<^verbatim>\<open>Object\<close> function, so the stored
  count is that function's text followed by \<^verbatim>\<open>"1"\<close>, not the number 1.
\<close>

theorem addExample_inherited_key:
  \<open>reachable withConstructor
   \<and> currentLabel withConstructor = Some ''constructor''
   \<and> indexOf (labels withConstructor) ''constructor'' = Some 2
   \<and> labelCount (examples withConstructor) ''constructor''
       = JObj ''function Object() { [native code] }''
   \<and> status (addExample demoWorld withConstructor) = ''Added example for "constructor"''
   \<and> datasetRef_xs (addExample demoWorld withConstructor) = [demoImage]
   \<and> datasetRef_ys (addExample demoWorld withConstructor) = [Tensor [1, 3] [0, 0, 1]]
   \<and> labelCount (examples (addExample demoWorld withConstructor)) ''constructor''
       = JStr ''function Object() { [native code] }1''\<close>
proof -
  have before: "labelCount (examples withConstructor) ''constructor''
      = JObj ''function Object() { [native code] }''"
    by (simp add: withConstructor_eq labelCount_def getProp_def orZero_def objectPrototype_def
        nativeFunction_def)
  have idx: "indexOf (labels withConstructor) ''constructor'' = Some 2"
    by (simp add: withConstructor_eq)
  have run: \<open>addExample demoWorld withConstructor =
      withConstructor\<lparr>datasetRef_xs := [demoImage], datasetRef_ys := [Tensor [1, 3] [0, 0, 1]],
        examples := [(''constructor'', JStr ''function Object() { [native code] }1'')],
        status := ''Added example for "constructor"''\<rparr>\<close>
    by (simp add: withConstructor_eq addExample_def addExample_try_def clearCanvas_def
        showLabel_def getProp_def orZero_def objectPrototype_def nativeFunction_def
        expandDims0_def)
  have after: "labelCount (examples (addExample demoWorld withConstructor)) ''constructor''
      = JStr ''function Object() { [native code] }1''"
    by (simp add: run labelCount_def getProp_def orZero_def)
  from reachable_withConstructor before idx after show ?thesis
    by (simp add: run) (simp add: withConstructor_eq)
qed

section \<open>The network\<close>

text \<open>
  C9. For a positive class count, \<^verbatim>\<open>buildModel\<close> returns a new model made of the
  eight layers in the order of the \<^verbatim>\<open>add\<close> calls, closing with a softmax dense layer
  of \<open>numClasses\<close> units, and compiled with Adam at learning rate 0.001, categorical
  cross-entropy and the accuracy metric. Nothing but the class count and the
  initialisers' draw enters the result.
\<close>

theorem buildModel_architecture:
  assumes "0 < numClasses"
  shows "buildModel init numClasses =
           Inr \<lparr>layers = [Conv2d (Some [28, 28, 1]) 16 3 Relu, MaxPool2d 2,
                          Conv2d None 32 3 Relu, MaxPool2d 2, Flatten, Dense 64 Relu,
                          Dropout 0.25, Dense numClasses Softmax],
                compiled = Some \<lparr>optimizer = Adam 0.001, loss = ''categoricalCrossentropy'',
                                  metrics = [''accuracy'']\<rparr>,
                weights = init\<rparr>
         \<and> (\<forall>m. buildModel init numClasses = Inr m \<longrightarrow>
               outputWidth (layers m) = Some numClasses)"
  using assms
  by (simp add: buildModel_def dense_def sequential_def add_def compile_def imageSize_def)

text \<open>C9 for two classes, the network the first training run of a session builds.\<close>

theorem buildModel_architecture_witness:
  "(0::nat) < 2
   \<and> buildModel [0] 2 =
       Inr \<lparr>layers = [Conv2d (Some [28, 28, 1]) 16 3 Relu, MaxPool2d 2,
                      Conv2d None 32 3 Relu, MaxPool2d 2, Flatten, Dense 64 Relu,
                      Dropout 0.25, Dense 2 Softmax],
            compiled = Some \<lparr>optimizer = Adam 0.001, loss = ''categoricalCrossentropy'',
                              metrics = [''accuracy'']\<rparr>,
            weights = [0]\<rparr>"
  using buildModel_architecture [of 2 "[0]"] by simp

section \<open>Inference\<close>

lemma mathMax_Max: "arr \<noteq> [] \<Longrightarrow> mathMax arr = Some (Max (set arr))"
proof (induction arr)
  case Nil
  then show ?case by simp
next
  case (Cons x rest)
  show ?case
  proof (cases "rest = []")
    case True
    then show ?thesis by simp
  next
    case False
    with Cons.IH have "mathMax rest = Some (Max (set rest))" by simp
    with False show ?thesis by (simp add: Max_insert)
  qed
qed

lemma indexOfMax_first:
  assumes i: "i < length arr"
    and top: "\<forall>j<length arr. arr ! j \<le> arr ! i"
    and first: "\<forall>j<i. arr ! j < arr ! i"
  shows "indexOfMax arr = Some i"
proof -
  from i have ne: "arr \<noteq> []" by auto
  have "Max (set arr) = arr ! i"
  proof (rule Max_eqI)
    show "finite (set arr)" by simp
    show "y \<le> arr ! i" if "y \<in> set arr" for y
      using that top by (auto simp: in_set_conv_nth)
    show "arr ! i \<in> set arr" using i by simp
  qed
  with ne have "mathMax arr = Some (arr ! i)" by (simp add: mathMax_Max)
  moreover have "indexOf arr (arr ! i) = Some i"
    using i first by (intro indexOf_first) auto
  ultimately show ?thesis by (simp add: indexOfMax_def)
qed

text \<open>On a non-empty vector the search always finds the first index of the maximum.\<close>

lemma indexOfMax_total:
  assumes "arr \<noteq> []"
  shows "\<exists>i<length arr. indexOfMax arr = Some i
           \<and> (\<forall>j<length arr. arr ! j \<le> arr ! i) \<and> (\<forall>j<i. arr ! j < arr ! i)"
proof -
  let ?m = "Max (set arr)"
  from assms have mm: "mathMax arr = Some ?m" by (rule mathMax_Max)
  from assms have "?m \<in> set arr" by (intro Max_in) auto
  then obtain i where i: "indexOf arr ?m = Some i"
    using indexOf_None_iff [of arr ?m] by (cases "indexOf arr ?m") auto
  from indexOf_Some_first [OF i]
  have lt: "i < length arr" and at: "arr ! i = ?m" and before: "\<forall>j<i. arr ! j \<noteq> ?m"
    by auto
  have le: "arr ! j \<le> ?m" if "j < length arr" for j
    using that by (intro Max_ge) auto
  have "arr ! j < arr ! i" if "j < i" for j
  proof -
    from that lt have "j < length arr" by simp
    with le have "arr ! j \<le> ?m" by simp
    moreover from before that have "arr ! j \<noteq> ?m" by simp
    ultimately show ?thesis using at by simp
  qed
  with lt le at mm i show ?thesis
    by (auto simp: indexOfMax_def)
qed

lemma predict_success:
  assumes "model s = Some m" and "canvasToTensor w = Inr x" and "tf_predict w m x = Inr arr"
  shows "predict w s =
           s\<lparr>prediction := Some \<lparr>label = elemAt (labels s) (indexOfMax arr), probs = arr\<rparr>\<rparr>"
  using assms by (simp add: predict_def predict_try_def)

text \<open>
  C4. Let the live model produce the vector \<open>arr\<close>, and let \<open>i\<close> be an index where
  \<open>arr\<close> is maximal and before which every value is smaller: the only index of the
  maximum when it is unique, the smallest of them in a tie. Then \<^verbatim>\<open>predict\<close> stores
  the prediction whose label is \<^verbatim>\<open>labels[i]\<close>, the label at position \<open>i\<close> when the
  label list is that long, together with \<open>arr\<close>.
\<close>

theorem predict_first_maximum:
  assumes "model s = Some m" and "canvasToTensor w = Inr x" and "tf_predict w m x = Inr arr"
    and "i < length arr"
    and "\<forall>j<length arr. arr ! j \<le> arr ! i"
    and "\<forall>j<i. arr ! j < arr ! i"
  shows "predict w s =
           s\<lparr>prediction := Some \<lparr>label = elemAt (labels s) (Some i), probs = arr\<rparr>\<rparr>
         \<and> (i < length (labels s) \<longrightarrow> elemAt (labels s) (Some i) = Some (labels s ! i))"
  using predict_success [OF assms(1-3)] indexOfMax_first [OF assms(4-6)]
  by (simp add: elemAt_def)

text \<open>
  C4 on the trained sample state, with a tie between the two classes: the first one,
  \<^verbatim>\<open>"circle"\<close>, is predicted.
\<close>

theorem predict_first_maximum_witness:
  "model trained = Some (demoModel 2 [1])
   \<and> canvasToTensor (demoWorld\<lparr>tf_predict := (\<lambda>m x. Inr [1 / 2, 1 / 2])\<rparr>) = Inr demoImage
   \<and> (0::nat) < length [1 / 2, 1 / 2 :: real]
   \<and> predict (demoWorld\<lparr>tf_predict := (\<lambda>m x. Inr [1 / 2, 1 / 2])\<rparr>) trained =
       trained\<lparr>prediction := Some \<lparr>label = Some ''circle'', probs = [1 / 2, 1 / 2]\<rparr>\<rparr>"
proof -
  let ?w = "demoWorld\<lparr>tf_predict := (\<lambda>m x. Inr [1 / 2, 1 / 2])\<rparr>"
  have m: "model trained = Some (demoModel 2 [1])" by (simp add: trained_eq)
  have c: "canvasToTensor ?w = Inr demoImage"
    by simp
  have p: "tf_predict ?w (demoModel 2 [1]) demoImage = Inr [1 / 2, 1 / 2]" by simp
  have top: "\<forall>j<length [1 / 2, 1 / 2 :: real]. [1 / 2, 1 / 2 :: real] ! j \<le> [1 / 2, 1 / 2] ! 0"
    by (simp add: nth_Cons split: nat.split)
  have first: "\<forall>j<0::nat. [1 / 2, 1 / 2 :: real] ! j < [1 / 2, 1 / 2] ! 0" by simp
  from predict_first_maximum [OF m c p _ top first] m c show ?thesis
    by (simp add: elemAt_def) (simp add: trained_eq)
qed

lemma elemAt_out_of_range: "length arr \<le> i \<Longrightarrow> elemAt arr (Some i) = None"
  by (simp add: elemAt_def)

text \<open>
  Whenever the maximum of the model's vector sits at an index past the label list, the
  predicted label is \<^verbatim>\<open>undefined\<close>.
\<close>

lemma predict_label_undefined:
  assumes "model s = Some m" and "canvasToTensor w = Inr x" and "tf_predict w m x = Inr arr"
    and "indexOfMax arr = Some i" and "length (labels s) \<le> i"
  shows "prediction (predict w s) = Some \<lparr>label = None, probs = arr\<rparr>"
  using predict_success [OF assms(1-3)] elemAt_out_of_range [OF assms(5)] assms(4)
  by simp

lemma indexOfMax_sample: "indexOfMax [1 / 4, 3 / 4] = Some 1"
  by (simp add: indexOfMax_def)

lemma predict_withoutSquare:
  "predict demoWorld withoutSquare =
     withoutSquare\<lparr>prediction := Some \<lparr>label = None, probs = [1 / 4, 3 / 4]\<rparr>\<rparr>"
proof -
  have "model withoutSquare = Some (demoModel 2 [1])" by (simp add: withoutSquare_eq)
  moreover have "tf_predict demoWorld (demoModel 2 [1]) demoImage = Inr [1 / 4, 3 / 4]"
    by (simp add: demoWorld_def)
  ultimately have "predict demoWorld withoutSquare =
      withoutSquare\<lparr>prediction :=
        Some \<lparr>label = elemAt (labels withoutSquare) (indexOfMax [1 / 4, 3 / 4]),
              probs = [1 / 4, 3 / 4]\<rparr>\<rparr>"
    by (intro predict_success) simp_all
  then show ?thesis
    by (simp add: indexOfMax_sample elemAt_def withoutSquare_eq)
qed

text \<open>
  C10. Whenever a model is live and produces a vector, the label \<^verbatim>\<open>predict\<close> stores
  is \<^verbatim>\<open>labels[maxIdx]\<close> for \<open>maxIdx\<close> the first index of the vector's maximum, read
  with no check of \<open>maxIdx\<close> against the label list: inside the list it is the label at
  that position, past its end it is \<^verbatim>\<open>undefined\<close>, which is none of the labels. A
  state is reachable in which the live model is wider than the label list (train on two
  labels, then remove one), and there a probability vector of the model's width with
  its maximum at the last index gives such a prediction.
\<close>

theorem predict_label_not_in_labelSet:
  "(model s = Some m \<and> canvasToTensor w = Inr x \<and> tf_predict w m x = Inr arr \<longrightarrow>
      prediction (predict w s)
        = Some \<lparr>label = elemAt (labels s) (indexOfMax arr), probs = arr\<rparr>
      \<and> (arr \<noteq> [] \<longrightarrow>
           (\<exists>i<length arr. indexOfMax arr = Some i
              \<and> (\<forall>j<length arr. arr ! j \<le> arr ! i) \<and> (\<forall>j<i. arr ! j < arr ! i)))
      \<and> (\<forall>i. indexOfMax arr = Some i \<longrightarrow>
           (i < length (labels s) \<longrightarrow>
              elemAt (labels s) (indexOfMax arr) = Some (labels s ! i))
           \<and> (length (labels s) \<le> i \<longrightarrow>
              elemAt (labels s) (indexOfMax arr) = None
              \<and> elemAt (labels s) (indexOfMax arr) \<notin> Some ` set (labels s))))
   \<and> (\<exists>s' w' m' k p i. reachable s' \<and> model s' = Some m'
         \<and> outputWidth (layers m') = Some k \<and> length (labels s') < k
         \<and> prediction (predict w' s') = Some p \<and> length (probs p) = k
         \<and> indexOfMax (probs p) = Some i \<and> length (labels s') \<le> i
         \<and> label p = None \<and> label p \<notin> Some ` set (labels s'))"
proof (intro conjI impI)
  assume run: "model s = Some m \<and> canvasToTensor w = Inr x \<and> tf_predict w m x = Inr arr"
  then show "prediction (predict w s)
      = Some \<lparr>label = elemAt (labels s) (indexOfMax arr), probs = arr\<rparr>"
    by (simp add: predict_success)
next
  assume "arr \<noteq> []"
  then show "\<exists>i<length arr. indexOfMax arr = Some i
      \<and> (\<forall>j<length arr. arr ! j \<le> arr ! i) \<and> (\<forall>j<i. arr ! j < arr ! i)"
    by (rule indexOfMax_total)
next
  show "\<forall>i. indexOfMax arr = Some i \<longrightarrow>
      (i < length (labels s) \<longrightarrow> elemAt (labels s) (indexOfMax arr) = Some (labels s ! i))
      \<and> (length (labels s) \<le> i \<longrightarrow>
           elemAt (labels s) (indexOfMax arr) = None
           \<and> elemAt (labels s) (indexOfMax arr) \<notin> Some ` set (labels s))"
    by (auto simp: elemAt_def)
next
  have "reachable withoutSquare \<and> model withoutSquare = Some (demoModel 2 [1])
     \<and> outputWidth (layers (demoModel 2 [1])) = Some 2
     \<and> length (labels withoutSquare) < 2
     \<and> prediction (predict demoWorld withoutSquare)
         = Some \<lparr>label = None, probs = [1 / 4, 3 / 4]\<rparr>
     \<and> length (probs \<lparr>label = None, probs = [1 / 4, 3 / 4 :: real]\<rparr>) = 2
     \<and> indexOfMax (probs \<lparr>label = None, probs = [1 / 4, 3 / 4 :: real]\<rparr>) = Some 1
     \<and> length (labels withoutSquare) \<le> 1
     \<and> label \<lparr>label = None, probs = [1 / 4, 3 / 4 :: real]\<rparr> = None
     \<and> label \<lparr>label = None, probs = [1 / 4, 3 / 4 :: real]\<rparr>
          \<notin> Some ` set (labels withoutSquare)"
    using reachable_withoutSquare
    by (simp add: predict_withoutSquare indexOfMax_sample)
      (simp add: withoutSquare_eq demoModel_def)
  then show "\<exists>s' w' m' k p i. reachable s' \<and> model s' = Some m'
         \<and> outputWidth (layers m') = Some k \<and> length (labels s') < k
         \<and> prediction (predict w' s') = Some p \<and> length (probs p) = k
         \<and> indexOfMax (probs p) = Some i \<and> length (labels s') \<le> i
         \<and> label p = None \<and> label p \<notin> Some ` set (labels s')"
    by blast
qed

text \<open>
  C10 on the sample session, with the model's vector \<open>[1/4, 3/4]\<close>: in the trained
  state the label at index 1 is \<^verbatim>\<open>"square"\<close>; after \<^verbatim>\<open>"square"\<close> was removed the same
  vector gives no label.
\<close>

theorem predict_label_not_in_labelSet_witness:
  "model trained = Some (demoModel 2 [1])
   \<and> model withoutSquare = Some (demoModel 2 [1])
   \<and> canvasToTensor demoWorld = Inr demoImage
   \<and> tf_predict demoWorld (demoModel 2 [1]) demoImage = Inr [1 / 4, 3 / 4]
   \<and> indexOfMax [1 / 4, 3 / 4] = Some 1
   \<and> labels trained = [''circle'', ''square'']
   \<and> prediction (predict demoWorld trained)
       = Some \<lparr>label = Some ''square'', probs = [1 / 4, 3 / 4]\<rparr>
   \<and> labels withoutSquare = [''circle'']
   \<and> prediction (predict demoWorld withoutSquare)
       = Some \<lparr>label = None, probs = [1 / 4, 3 / 4]\<rparr>"
proof -
  have m: "model trained = Some (demoModel 2 [1])"
    and m': "model withoutSquare = Some (demoModel 2 [1])"
    by (simp_all add: trained_eq withoutSquare_eq)
  have c: "canvasToTensor demoWorld = Inr demoImage" by simp
  have p: "tf_predict demoWorld (demoModel 2 [1]) demoImage = Inr [1 / 4, 3 / 4]"
    by (simp add: demoWorld_def)
  from predict_label_not_in_labelSet
    [of trained "demoModel 2 [1]" demoWorld demoImage "[1 / 4, 3 / 4]"] m c p
  have one: "prediction (predict demoWorld trained)
      = Some \<lparr>label = elemAt (labels trained) (indexOfMax [1 / 4, 3 / 4]),
              probs = [1 / 4, 3 / 4]\<rparr>"
    by blast
  from predict_label_not_in_labelSet
    [of withoutSquare "demoModel 2 [1]" demoWorld demoImage "[1 / 4, 3 / 4]"] m' c p
  have two: "prediction (predict demoWorld withoutSquare)
      = Some \<lparr>label = elemAt (labels withoutSquare) (indexOfMax [1 / 4, 3 / 4]),
              probs = [1 / 4, 3 / 4]\<rparr>"
    by blast
  from m m' c p one two show ?thesis
    by (simp add: indexOfMax_sample elemAt_def) (simp add: trained_eq withoutSquare_eq)
qed

section \<open>Training failures\<close>

lemma train_proceeds:
  assumes "\<not> length (datasetRef_xs s) < length (labels s)"
  shows "train w s =
           (case train_try w (s\<lparr>status := ''Preparing tensors...''\<rparr>) of
              Inr s' \<Rightarrow> s'
            | Inl (err, s') \<Rightarrow> s'\<lparr>status := ''Training failed: '' @ message err\<rparr>)"
  using assms by (simp add: train_def)

text \<open>
  C1, as the handler behaves. A run that passes the example-count check and fails ends
  with the status line \<^verbatim>\<open>Training failed:\<close> and the cause. When a concatenation
  (or the construction of the network) throws, nothing else has changed, so the model
  that was live stays live. When \<^verbatim>\<open>fit\<close> throws, \<^verbatim>\<open>setModel(m)\<close> has already run:
  the live model is the newly built one, with the weights \<^verbatim>\<open>fit\<close> left in it.
\<close>

theorem train_failure:
  assumes "\<not> length (datasetRef_xs s) < length (labels s)"
  shows "(tf_concat w (datasetRef_xs s) = Inl e \<longrightarrow>
            train w s = s\<lparr>status := ''Training failed: '' @ message e\<rparr>
            \<and> model (train w s) = model s)
       \<and> (tf_concat w (datasetRef_xs s) = Inr X \<and> tf_concat w (datasetRef_ys s) = Inl e \<longrightarrow>
            train w s = s\<lparr>status := ''Training failed: '' @ message e\<rparr>
            \<and> model (train w s) = model s)
       \<and> (tf_concat w (datasetRef_xs s) = Inr X \<and> tf_concat w (datasetRef_ys s) = Inr Y
            \<and> buildModel (tf_initialWeights w) (length (labels s)) = Inl e \<longrightarrow>
            train w s = s\<lparr>status := ''Training failed: '' @ message e\<rparr>
            \<and> model (train w s) = model s)
       \<and> (tf_concat w (datasetRef_xs s) = Inr X \<and> tf_concat w (datasetRef_ys s) = Inr Y
            \<and> buildModel (tf_initialWeights w) (length (labels s)) = Inr m
            \<and> tf_fit w m X Y = (wts, Some e) \<longrightarrow>
            train w s = s\<lparr>model := Some (m\<lparr>weights := wts\<rparr>),
                           status := ''Training failed: '' @ message e\<rparr>
            \<and> model (train w s) = Some (m\<lparr>weights := wts\<rparr>))"
  by (simp add: train_proceeds [OF assms] train_try_def)

lemma train_withoutSquare:
  "train demoWorld withoutSquare =
     withoutSquare\<lparr>model := Some (demoModel 1 [0]),
       status := ''Training failed: Error when checking target: shape does not match the output layer''\<rparr>"
  by (simp add: train_def train_try_def withoutSquare_eq demoWorld_def demoFit_def
      demoConcat_def demoTargets_def buildModel_def dense_def sequential_def add_def
      compile_def imageSize_def demoModel_def)

text \<open>
  C1 fails when it is \<^verbatim>\<open>fit\<close> that throws. In the sample session \<^verbatim>\<open>"square"\<close> was
  removed after training; the next run concatenates the two examples, builds a
  one-class network and makes it the live model, and \<^verbatim>\<open>fit\<close> then rejects the
  two-column targets. The two-class model that was live before the run is gone.
\<close>

theorem train_fit_failure_counterexample:
  "reachable withoutSquare
   \<and> model withoutSquare = Some (demoModel 2 [1])
   \<and> \<not> length (datasetRef_xs withoutSquare) < length (labels withoutSquare)
   \<and> tf_concat demoWorld (datasetRef_xs withoutSquare)
       = Inr (Tensor [2, 28, 28, 1] (vals demoImage @ vals demoImage))
   \<and> tf_concat demoWorld (datasetRef_ys withoutSquare) = Inr (Tensor [2, 2] [1, 0, 0, 1])
   \<and> tf_fit demoWorld (demoModel 1 [0])
        (Tensor [2, 28, 28, 1] (vals demoImage @ vals demoImage)) (Tensor [2, 2] [1, 0, 0, 1])
       = ([0], Some (Error ''Error when checking target: shape does not match the output layer''))
   \<and> model (train demoWorld withoutSquare) = Some (demoModel 1 [0])
   \<and> model (train demoWorld withoutSquare) \<noteq> model withoutSquare
   \<and> status (train demoWorld withoutSquare) =
       ''Training failed: Error when checking target: shape does not match the output layer''"
proof -
  have "tf_concat demoWorld (datasetRef_xs withoutSquare)
      = Inr (Tensor [2, 28, 28, 1] (vals demoImage @ vals demoImage))"
    by (simp add: withoutSquare_eq demoWorld_def demoConcat_def) (simp add: demoImage_def)
  moreover have "tf_concat demoWorld (datasetRef_ys withoutSquare)
      = Inr (Tensor [2, 2] [1, 0, 0, 1])"
    by (simp add: withoutSquare_eq demoWorld_def demoConcat_def demoTargets_def)
  moreover have "tf_fit demoWorld (demoModel 1 [0])
        (Tensor [2, 28, 28, 1] (vals demoImage @ vals demoImage)) (Tensor [2, 2] [1, 0, 0, 1])
       = ([0], Some (Error ''Error when checking target: shape does not match the output layer''))"
    by (simp add: demoWorld_def demoFit_def demoModel_def)
  moreover have "demoModel 1 [0] \<noteq> demoModel 2 [1]"
    by (simp add: demoModel_def)
  ultimately show ?thesis
    using reachable_withoutSquare
    by (simp add: train_withoutSquare) (simp add: withoutSquare_eq)
qed

text \<open>
  The amended C1 on the sample session. With targets of two and of three columns the
  second concatenation throws and the trained model stays live; with \<^verbatim>\<open>"square"\<close>
  removed it is \<^verbatim>\<open>fit\<close> that throws, and the new one-class model is live.
\<close>

theorem train_failure_witness:
  "\<not> length (datasetRef_xs mixedWidths) < length (labels mixedWidths)
   \<and> model mixedWidths = Some (demoModel 2 [1])
   \<and> model (train demoWorld mixedWidths) = Some (demoModel 2 [1])
   \<and> status (train demoWorld mixedWidths) =
       ''Training failed: Error in concat: shapes do not match along the non-concatenated axes''
   \<and> \<not> length (datasetRef_xs withoutSquare) < length (labels withoutSquare)
   \<and> model (train demoWorld withoutSquare) = Some (demoModel 1 [0])"
proof -
  have enough: "\<not> length (datasetRef_xs mixedWidths) < length (labels mixedWidths)"
    by (simp add: mixedWidths_eq)
  have x3: "tf_concat demoWorld (datasetRef_xs mixedWidths)
      = Inr (Tensor [3, 28, 28, 1] (vals demoImage @ vals demoImage @ vals demoImage))"
    by (simp add: mixedWidths_eq demoWorld_def demoConcat_def) (simp add: demoImage_def)
  have y3: "tf_concat demoWorld (datasetRef_ys mixedWidths)
      = Inl (Error ''Error in concat: shapes do not match along the non-concatenated axes'')"
    by (simp add: mixedWidths_eq demoWorld_def demoConcat_def demoTargets_def)
  from train_failure [OF enough, where w = demoWorld
      and e = "Error ''Error in concat: shapes do not match along the non-concatenated axes''"
      and X = "Tensor [3, 28, 28, 1] (vals demoImage @ vals demoImage @ vals demoImage)"]
  have one: "train demoWorld mixedWidths = mixedWidths\<lparr>status :=
        ''Training failed: Error in concat: shapes do not match along the non-concatenated axes''\<rparr>"
    using x3 y3 by simp
  have enough': "\<not> length (datasetRef_xs withoutSquare) < length (labels withoutSquare)"
    by (simp add: withoutSquare_eq)
  have x: "tf_concat demoWorld (datasetRef_xs withoutSquare)
      = Inr (Tensor [2, 28, 28, 1] (vals demoImage @ vals demoImage))"
    by (simp add: withoutSquare_eq demoWorld_def demoConcat_def) (simp add: demoImage_def)
  have y: "tf_concat demoWorld (datasetRef_ys withoutSquare) = Inr (Tensor [2, 2] [1, 0, 0, 1])"
    by (simp add: withoutSquare_eq demoWorld_def demoConcat_def demoTargets_def)
  have b: "buildModel (tf_initialWeights demoWorld) (length (labels withoutSquare))
      = Inr (demoModel 1 [0])"
    by (simp add: withoutSquare_eq demoWorld_def buildModel_def dense_def
        sequential_def add_def compile_def imageSize_def demoModel_def)
  have f: "tf_fit demoWorld (demoModel 1 [0])
        (Tensor [2, 28, 28, 1] (vals demoImage @ vals demoImage)) (Tensor [2, 2] [1, 0, 0, 1])
      = ([0], Some (Error ''Error when checking target: shape does not match the output layer''))"
    by (simp add: demoWorld_def demoFit_def demoModel_def)
  from train_failure [OF enough', of demoWorld _ _ _ _ _]
  have two: "model (train demoWorld withoutSquare) = Some (demoModel 1 [0]\<lparr>weights := [0]\<rparr>)"
    using x y b f by blast
  from enough enough' one two show ?thesis
    by (simp add: demoModel_def) (simp add: mixedWidths_eq demoModel_def)
qed

section \<open>Saving and loading\<close>






section \<open>The label list\<close>

lemma labelSetOk_iff: "labelSetOk ls \<longleftrightarrow> distinct ls \<and> ls \<noteq> []"
  by (auto simp: labelSetOk_def indexOf_distinct)

lemma filter_keeps_one:
  assumes "distinct ls" and "2 \<le> length ls"
  shows "filter (\<lambda>l. Some l \<noteq> c) ls \<noteq> []"
proof (cases c)
  case None
  with assms(2) show ?thesis by (cases ls) auto
next
  case (Some d)
  have "filter (\<lambda>l. Some l \<noteq> c) ls = removeAll d ls"
    using Some by (induction ls) auto
  also have "\<dots> = remove1 d ls"
    using assms(1) by (simp add: distinct_remove1_removeAll)
  finally have "length (filter (\<lambda>l. Some l \<noteq> c) ls) = length (remove1 d ls)"
    by simp
  moreover have "length ls - 1 \<le> length (remove1 d ls)"
    by (simp add: length_remove1)
  ultimately have "0 < length (filter (\<lambda>l. Some l \<noteq> c) ls)"
    using assms(2) by linarith
  then show ?thesis by auto
qed

lemma addLabel_inv: "labelSetInv s \<Longrightarrow> labelSetInv (addLabel w s)"
  by (auto simp: labelSetInv_def labelSetOk_iff addLabel_def split: option.splits)

lemma removeLabel_inv:
  assumes "labelSetInv s"
  shows "labelSetInv (removeLabel s)"
proof (cases "length (labels s) \<le> 1")
  case True
  with assms show ?thesis by (simp add: removeLabel_def)
next
  case False
  from assms have d: "distinct (labels s)"
    by (simp add: labelSetInv_def labelSetOk_iff)
  from False have "2 \<le> length (labels s)" by simp
  from filter_keeps_one [OF d this]
  have "filter (\<lambda>l. Some l \<noteq> currentLabel s) (labels s) \<noteq> []" .
  with assms d False show ?thesis
    by (simp add: labelSetInv_def labelSetOk_iff removeLabel_def Let_def)
qed

lemma loadModel_inv: "labelSetInv s \<Longrightarrow> labelSetInv (loadModel w s)"
  by (auto simp: labelSetInv_def loadModel_def savedLabels_def
      split: sum.splits json.splits list.splits option.splits)

lemma saveModel_inv: "labelSetInv s \<Longrightarrow> labelSetInv (saveModel w s)"
  by (auto simp: labelSetInv_def saveModel_def split: option.splits)

lemma addExample_labels:
  "labels (addExample w s) = labels s \<and> localStorage (addExample w s) = localStorage s
   \<and> currentLabel (addExample w s) = currentLabel s"
  by (auto simp: addExample_def addExample_try_def clearCanvas_def
      split: sum.splits option.splits)

lemma train_labels:
  "labels (train w s) = labels s \<and> localStorage (train w s) = localStorage s
   \<and> currentLabel (train w s) = currentLabel s"
  by (auto simp: train_def train_try_def split: sum.splits option.splits prod.splits)

lemma predict_labels:
  "labels (predict w s) = labels s \<and> localStorage (predict w s) = localStorage s
   \<and> currentLabel (predict w s) = currentLabel s"
  by (auto simp: predict_def predict_try_def split: sum.splits option.splits)

lemma initialState_inv:
  "labelSetInv s \<Longrightarrow> labelSetInv (initialState (indexeddb s) (localStorage s))"
  by (simp add: labelSetInv_def labelSetOk_iff initialState_def)

lemma step_inv: "labelSetInv s \<Longrightarrow> labelSetInv (step w a s)"
proof (cases a)
  case AddExample
  assume "labelSetInv s"
  then show ?thesis using AddExample addExample_labels [of w s] by (simp add: labelSetInv_def)
next
  case Train
  assume "labelSetInv s"
  then show ?thesis using Train train_labels [of w s] by (simp add: labelSetInv_def)
next
  case Predict
  assume "labelSetInv s"
  then show ?thesis using Predict predict_labels [of w s] by (simp add: labelSetInv_def)
next
  case SaveModel
  assume "labelSetInv s"
  then show ?thesis using SaveModel by (simp add: saveModel_inv)
next
  case LoadModel
  assume "labelSetInv s"
  then show ?thesis using LoadModel by (simp add: loadModel_inv)
next
  case AddLabel
  assume "labelSetInv s"
  then show ?thesis using AddLabel by (simp add: addLabel_inv)
next
  case RemoveLabel
  assume "labelSetInv s"
  then show ?thesis using RemoveLabel by (simp add: removeLabel_inv)
next
  case (SelectLabel l)
  assume "labelSetInv s"
  then show ?thesis using SelectLabel by (simp add: labelSetInv_def selectLabel_def)
next
  case ClearCanvas
  assume "labelSetInv s"
  then show ?thesis using ClearCanvas by (simp add: labelSetInv_def clearCanvas_def)
next
  case Reload
  assume "labelSetInv s"
  then show ?thesis using Reload by (simp add: mount_def loadModel_inv initialState_inv)
qed

text \<open>Every state the component can be in satisfies the invariant.\<close>

lemma reachable_labelSetInv: "reachable s \<Longrightarrow> labelSetInv s"
proof (induction rule: reachable.induct)
  case (reachable_mount w)
  have "labelSetInv (initialState None None)"
    by (simp add: labelSetInv_def labelSetOk_iff initialState_def)
  then show ?case by (simp add: mount_def loadModel_inv)
next
  case (reachable_step s w a)
  then show ?case by (simp add: step_inv)
qed

text \<open>In a reachable state the current label is one of the labels.\<close>

lemma reachable_currentLabel: "reachable s \<Longrightarrow> currentLabel s \<in> Some ` set (labels s)"
proof (induction rule: reachable.induct)
  case (reachable_mount w)
  show ?case
    by (auto simp: mount_def initialState_def loadModel_def savedLabels_def
        split: sum.splits json.splits list.splits option.splits)
next
  case (reachable_step s w a)
  from reachable_step.hyps have inv: "labelSetInv s" by (rule reachable_labelSetInv)
  show ?case
  proof (cases a)
    case AddExample
    with reachable_step.IH addExample_labels [of w s] show ?thesis by simp
  next
    case Train
    with reachable_step.IH train_labels [of w s] show ?thesis by simp
  next
    case Predict
    with reachable_step.IH predict_labels [of w s] show ?thesis by simp
  next
    case SaveModel
    with reachable_step.IH show ?thesis
      by (auto simp: saveModel_def split: option.splits)
  next
    case LoadModel
    with reachable_step.IH show ?thesis
      by (auto simp: loadModel_def savedLabels_def
          split: sum.splits json.splits list.splits option.splits)
  next
    case AddLabel
    with reachable_step.IH show ?thesis
      by (auto simp: addLabel_def split: option.splits)
  next
    case RemoveLabel
    show ?thesis
    proof (cases "length (labels s) \<le> 1")
      case True
      with RemoveLabel reachable_step.IH show ?thesis by (simp add: removeLabel_def)
    next
      case False
      from inv have "distinct (labels s)" by (simp add: labelSetInv_def labelSetOk_iff)
      moreover from False have "2 \<le> length (labels s)" by simp
      ultimately have "filter (\<lambda>l. Some l \<noteq> currentLabel s) (labels s) \<noteq> []"
        by (rule filter_keeps_one)
      then obtain l rest where "filter (\<lambda>l. Some l \<noteq> currentLabel s) (labels s) = l # rest"
        by (cases "filter (\<lambda>l. Some l \<noteq> currentLabel s) (labels s)") auto
      with RemoveLabel False show ?thesis
        by (simp add: removeLabel_def elemAt_def)
    qed
  next
    case (SelectLabel l)
    with reachable_step.IH show ?thesis by (simp add: selectLabel_def)
  next
    case ClearCanvas
    with reachable_step.IH show ?thesis by (simp add: clearCanvas_def)
  next
    case Reload
    then show ?thesis
      by (auto simp: mount_def initialState_def loadModel_def savedLabels_def
          split: sum.splits json.splits list.splits option.splits)
  qed
qed

text \<open>
  C8. Each of the three operations that write the label list keeps the invariant:
  \<^verbatim>\<open>addLabel\<close>, \<^verbatim>\<open>removeLabel\<close>, and \<^verbatim>\<open>loadModel\<close> installing the stored labels.
  \<^verbatim>\<open>removeLabel\<close> on a list of one label does nothing.
\<close>

theorem labelSet_invariant_preserved:
  assumes "labelSetInv s"
  shows "labelSetInv (addLabel w s) \<and> labelSetOk (labels (addLabel w s))
       \<and> labelSetInv (removeLabel s) \<and> labelSetOk (labels (removeLabel s))
       \<and> labelSetInv (loadModel w s) \<and> labelSetOk (labels (loadModel w s))
       \<and> (length (labels s) \<le> 1 \<longrightarrow> removeLabel s = s)"
proof -
  have "labelSetInv (addLabel w s)" "labelSetInv (removeLabel s)" "labelSetInv (loadModel w s)"
    using assms by (simp_all add: addLabel_inv removeLabel_inv loadModel_inv)
  moreover have "length (labels s) \<le> 1 \<longrightarrow> removeLabel s = s"
    by (simp add: removeLabel_def)
  ultimately show ?thesis by (simp add: labelSetInv_def)
qed

text \<open>
  C8 on the sample session, at the state with the single label \<^verbatim>\<open>"circle"\<close> and the
  two stored labels: the removal is refused, a label is added at the end, and
  \<^verbatim>\<open>loadModel\<close> installs the stored list.
\<close>

theorem labelSet_invariant_preserved_witness:
  "labelSetInv savedThenRemoved
   \<and> labels savedThenRemoved = [''circle'']
   \<and> removeLabel savedThenRemoved = savedThenRemoved
   \<and> labels (addLabel (demoWorld\<lparr>prompt := Some ''star''\<rparr>) savedThenRemoved)
       = [''circle'', ''star'']
   \<and> labelSetOk (labels (addLabel (demoWorld\<lparr>prompt := Some ''star''\<rparr>) savedThenRemoved))
   \<and> labels (loadModel (demoWorld\<lparr>prompt := Some ''star''\<rparr>) savedThenRemoved)
       = [''circle'', ''square'']
   \<and> labelSetOk (labels (loadModel (demoWorld\<lparr>prompt := Some ''star''\<rparr>) savedThenRemoved))"
proof -
  let ?w = "demoWorld\<lparr>prompt := Some ''star''\<rparr>"
  have inv: "labelSetInv savedThenRemoved"
    by (simp add: labelSetInv_def labelSetOk_iff savedThenRemoved_eq)
  have "labels (addLabel ?w savedThenRemoved) = [''circle'', ''star'']"
    by (simp add: addLabel_def savedThenRemoved_eq)
  moreover have "labels (loadModel ?w savedThenRemoved) = [''circle'', ''square'']"
    by (simp add: loadModel_def loadLayersModel_def savedLabels_def savedThenRemoved_eq
        demoWorld_def)
  moreover have "length (labels savedThenRemoved) \<le> 1" "labels savedThenRemoved = [''circle'']"
    by (simp_all add: savedThenRemoved_eq)
  ultimately show ?thesis
    using labelSet_invariant_preserved [OF inv, of ?w] inv
    by simp
qed

text \<open>
  So \<^verbatim>\<open>train\<close> calls \<^verbatim>\<open>buildModel\<close> with a positive class count in every reachable
  state.
\<close>

lemma reachable_numClasses: "reachable s \<Longrightarrow> 0 < length (labels s)"
  using reachable_labelSetInv [of s] by (simp add: labelSetInv_def labelSetOk_iff)

end
